theory Spec2Isabelle
  imports Complex_Main
begin

section \<open>JavaScript numbers and values\<close>

text \<open>
  A JavaScript number is an IEEE-754 double.  The embedding keeps the three special
  values apart and represents a finite double by the rational it denotes.  Rounding of
  finite results and the sign of zero are not represented; a finite result whose
  magnitude reaches the overflow threshold of the double format becomes an infinity, as
  it does in the machine.
\<close>

datatype jsnum = Fin rat | PInf | NInf | NaN

definition DBL_LIMIT :: rat where
  "DBL_LIMIT = 2 ^ 1024 - 2 ^ 970"

definition dbl :: "rat \<Rightarrow> jsnum" where
  "dbl q = (if DBL_LIMIT \<le> q then PInf else if q \<le> - DBL_LIMIT then NInf else Fin q)"

fun num_neg :: "jsnum \<Rightarrow> jsnum" where
  "num_neg (Fin a) = Fin (- a)"
| "num_neg PInf = NInf"
| "num_neg NInf = PInf"
| "num_neg NaN = NaN"

fun num_add :: "jsnum \<Rightarrow> jsnum \<Rightarrow> jsnum" where
  "num_add NaN _ = NaN"
| "num_add _ NaN = NaN"
| "num_add PInf NInf = NaN"
| "num_add NInf PInf = NaN"
| "num_add PInf _ = PInf"
| "num_add _ PInf = PInf"
| "num_add NInf _ = NInf"
| "num_add _ NInf = NInf"
| "num_add (Fin a) (Fin b) = dbl (a + b)"

definition num_sub :: "jsnum \<Rightarrow> jsnum \<Rightarrow> jsnum" where
  "num_sub a b = num_add a (num_neg b)"

fun num_sgn :: "jsnum \<Rightarrow> int" where
  "num_sgn (Fin a) = (if a < 0 then -1 else if a = 0 then 0 else 1)"
| "num_sgn PInf = 1"
| "num_sgn NInf = -1"
| "num_sgn NaN = 0"

fun num_mul :: "jsnum \<Rightarrow> jsnum \<Rightarrow> jsnum" where
  "num_mul NaN _ = NaN"
| "num_mul _ NaN = NaN"
| "num_mul (Fin a) (Fin b) = dbl (a * b)"
| "num_mul a b =
     (let s = num_sgn a * num_sgn b
      in if s = 0 then NaN else if s < 0 then NInf else PInf)"

fun num_div :: "jsnum \<Rightarrow> jsnum \<Rightarrow> jsnum" where
  "num_div NaN _ = NaN"
| "num_div _ NaN = NaN"
| "num_div (Fin a) (Fin b) =
     (if b = 0 then (if a = 0 then NaN else if a < 0 then NInf else PInf)
      else dbl (a / b))"
| "num_div (Fin a) _ = Fin 0"
| "num_div a (Fin b) =
     (if num_sgn a * (if b < 0 then -1 else 1) < 0 then NInf else PInf)"
| "num_div _ _ = NaN"

fun num_abs :: "jsnum \<Rightarrow> jsnum" where
  "num_abs (Fin a) = Fin \<bar>a\<bar>"
| "num_abs PInf = PInf"
| "num_abs NInf = PInf"
| "num_abs NaN = NaN"

text \<open>The relational operators: every comparison with \<open>NaN\<close> is false.\<close>

fun num_lt :: "jsnum \<Rightarrow> jsnum \<Rightarrow> bool" where
  "num_lt NaN _ = False"
| "num_lt _ NaN = False"
| "num_lt (Fin a) (Fin b) = (a < b)"
| "num_lt PInf _ = False"
| "num_lt _ PInf = True"
| "num_lt NInf NInf = False"
| "num_lt NInf _ = True"
| "num_lt _ NInf = False"

definition num_gt :: "jsnum \<Rightarrow> jsnum \<Rightarrow> bool" where
  "num_gt a b = num_lt b a"

definition num_le :: "jsnum \<Rightarrow> jsnum \<Rightarrow> bool" where
  "num_le a b = (a \<noteq> NaN \<and> b \<noteq> NaN \<and> \<not> num_lt b a)"

text \<open>\<open>===\<close> on two numbers: \<open>NaN\<close> is different from itself.\<close>

definition num_eq :: "jsnum \<Rightarrow> jsnum \<Rightarrow> bool" where
  "num_eq a b = (a \<noteq> NaN \<and> a = b)"

text \<open>\<open>Math.min\<close> and \<open>Math.max\<close> of two arguments.\<close>

definition Math_min :: "jsnum \<Rightarrow> jsnum \<Rightarrow> jsnum" where
  "Math_min a b = (if a = NaN \<or> b = NaN then NaN else if num_lt b a then b else a)"

definition Math_max :: "jsnum \<Rightarrow> jsnum \<Rightarrow> jsnum" where
  "Math_max a b = (if a = NaN \<or> b = NaN then NaN else if num_lt a b then b else a)"

definition isNaN :: "jsnum \<Rightarrow> bool" where
  "isNaN n = (n = NaN)"

definition isFinite :: "jsnum \<Rightarrow> bool" where
  "isFinite n = (case n of Fin _ \<Rightarrow> True | _ \<Rightarrow> False)"

text \<open>
  The values \<open>JSON.parse\<close> can produce, and \<open>undefined\<close>, which reading an absent
  property gives.  An object is the list of its own properties in insertion order.
\<close>

datatype jsval =
    JUndefined
  | JNull
  | JBool bool
  | JNum jsnum
  | JStr string
  | JArr "jsval list"
  | JObj "(string \<times> jsval) list"

text \<open>Truthiness, the \<open>||\<close> operator and strict inequality \<open>!==\<close>.\<close>

fun truthy :: "jsval \<Rightarrow> bool" where
  "truthy JUndefined = False"
| "truthy JNull = False"
| "truthy (JBool b) = b"
| "truthy (JNum n) = (n \<noteq> NaN \<and> n \<noteq> Fin 0)"
| "truthy (JStr s) = (s \<noteq> [])"
| "truthy (JArr _) = True"
| "truthy (JObj _) = True"

definition js_or :: "jsval \<Rightarrow> jsval \<Rightarrow> jsval" where
  "js_or a b = (if truthy a then a else b)"

text \<open>
  Two arrays or objects are strictly equal only when they are the same reference; the
  operands compared in this program are distinct nodes of one parsed tree, or a freshly
  made value and a node, so two arrays or two objects always differ.
\<close>

fun strict_neq :: "jsval \<Rightarrow> jsval \<Rightarrow> bool" where
  "strict_neq JUndefined JUndefined = False"
| "strict_neq JNull JNull = False"
| "strict_neq (JBool a) (JBool b) = (a \<noteq> b)"
| "strict_neq (JNum a) (JNum b) = (\<not> num_eq a b)"
| "strict_neq (JStr a) (JStr b) = (a \<noteq> b)"
| "strict_neq _ _ = True"

text \<open>
  Reading a property of a value that is neither \<open>null\<close> nor \<open>undefined\<close>.  The
  property names this program reads are never inherited ones, so only an object has them.
\<close>

fun getProp :: "jsval \<Rightarrow> string \<Rightarrow> jsval" where
  "getProp (JObj ps) k = (case map_of ps k of Some v \<Rightarrow> v | None \<Rightarrow> JUndefined)"
| "getProp _ k = JUndefined"

text \<open>The \<open>in\<close> operator: a \<open>TypeError\<close> (\<open>None\<close>) on a primitive.\<close>

fun has_prop :: "string \<Rightarrow> jsval \<Rightarrow> bool option" where
  "has_prop k (JObj ps) = Some (k \<in> set (map fst ps))"
| "has_prop k (JArr _) = Some False"
| "has_prop k _ = None"

section \<open>Strings to numbers\<close>

definition isWhiteSpace :: "char \<Rightarrow> bool" where
  "isWhiteSpace c = (c \<in> set [CHR 0x09, CHR 0x0A, CHR 0x0B, CHR 0x0C, CHR 0x0D, CHR 0x20, CHR 0xA0])"

definition isDigit :: "char \<Rightarrow> bool" where
  "isDigit c = (48 \<le> (of_char c :: nat) \<and> (of_char c :: nat) \<le> 57)"

definition digitsValue :: "string \<Rightarrow> nat" where
  "digitsValue ds = foldl (\<lambda>a c. 10 * a + (of_char c - 48)) 0 ds"

definition trim :: "string \<Rightarrow> string" where
  "trim s = rev (dropWhile isWhiteSpace (rev (dropWhile isWhiteSpace s)))"

text \<open>
  The exponent part of a decimal literal, when one is there: its value and the text
  after it.  An \<open>e\<close> that no digit follows is not part of the literal.
\<close>

definition scanExponent :: "string \<Rightarrow> int \<times> string" where
  "scanExponent s =
     (case s of
        [] \<Rightarrow> (0, s)
      | c # r \<Rightarrow>
          if c = CHR ''e'' \<or> c = CHR ''E'' then
            (let neg = (r \<noteq> [] \<and> hd r = CHR ''-'');
                 r' = (if r \<noteq> [] \<and> (hd r = CHR ''-'' \<or> hd r = CHR ''+'') then tl r else r);
                 ds = takeWhile isDigit r'
             in if ds = [] then (0, s)
                else ((if neg then - int (digitsValue ds) else int (digitsValue ds)),
                      dropWhile isDigit r'))
          else (0, s))"

definition scaleBy :: "rat \<Rightarrow> int \<Rightarrow> rat" where
  "scaleBy m e = (if 0 \<le> e then m * 10 ^ nat e else m / 10 ^ nat (- e))"

text \<open>
  The longest prefix that is a \<open>StrDecimalLiteral\<close> of the language definition, with
  its value and the text after it; \<open>None\<close> when no prefix is one.
\<close>

definition scanDecimal :: "string \<Rightarrow> (jsnum \<times> string) option" where
  "scanDecimal s =
     (let neg = (s \<noteq> [] \<and> hd s = CHR ''-'');
          r1 = (if s \<noteq> [] \<and> (hd s = CHR ''-'' \<or> hd s = CHR ''+'') then tl s else s)
      in if take 8 r1 = ''Infinity'' then Some (if neg then NInf else PInf, drop 8 r1)
         else
           (let ip = takeWhile isDigit r1;
                r2 = dropWhile isDigit r1;
                dot = (r2 \<noteq> [] \<and> hd r2 = CHR ''.'');
                fp = (if dot then takeWhile isDigit (tl r2) else []);
                r3 = (if dot \<and> (ip \<noteq> [] \<or> fp \<noteq> []) then dropWhile isDigit (tl r2) else r2)
            in if ip = [] \<and> fp = [] then None
               else
                 (let mant = of_nat (digitsValue ip) + of_nat (digitsValue fp) / 10 ^ length fp;
                      (e, r4) = scanExponent r3;
                      v = scaleBy mant e
                  in Some (dbl (if neg then - v else v), r4))))"

definition parseFloat :: "string \<Rightarrow> jsnum" where
  "parseFloat s = (case scanDecimal (dropWhile isWhiteSpace s) of None \<Rightarrow> NaN | Some (v, _) \<Rightarrow> v)"

text \<open>\<open>parseInt(s, 10)\<close>: leading white space, a sign, then the longest run of digits.\<close>

definition parseInt10 :: "string \<Rightarrow> jsnum" where
  "parseInt10 s =
     (let t = dropWhile isWhiteSpace s;
          neg = (t \<noteq> [] \<and> hd t = CHR ''-'');
          r = (if t \<noteq> [] \<and> (hd t = CHR ''-'' \<or> hd t = CHR ''+'') then tl t else t);
          ds = takeWhile isDigit r
      in if ds = [] then NaN
         else dbl (if neg then - of_nat (digitsValue ds) else of_nat (digitsValue ds)))"

text \<open>Digits of the other radixes a numeric string may be written in.\<close>

definition radixDigit :: "nat \<Rightarrow> char \<Rightarrow> nat option" where
  "radixDigit b c =
     (let n = (of_char c :: nat);
          d = (if 48 \<le> n \<and> n \<le> 57 then n - 48
               else if 97 \<le> n \<and> n \<le> 102 then n - 87
               else if 65 \<le> n \<and> n \<le> 70 then n - 55
               else 16)
      in if d < b then Some d else None)"

definition radixValue :: "nat \<Rightarrow> string \<Rightarrow> jsnum" where
  "radixValue b ds =
     (if ds = [] \<or> (\<exists>c \<in> set ds. radixDigit b c = None) then NaN
      else dbl (of_nat (foldl (\<lambda>a c. b * a + the (radixDigit b c)) 0 ds)))"

text \<open>\<open>ToNumber\<close> of a string: the whole trimmed text has to be a numeric literal.\<close>

definition StringToNumber :: "string \<Rightarrow> jsnum" where
  "StringToNumber s =
     (let t = trim s
      in if t = [] then Fin 0
         else if take 2 t = ''0x'' \<or> take 2 t = ''0X'' then radixValue 16 (drop 2 t)
         else if take 2 t = ''0o'' \<or> take 2 t = ''0O'' then radixValue 8 (drop 2 t)
         else if take 2 t = ''0b'' \<or> take 2 t = ''0B'' then radixValue 2 (drop 2 t)
         else (case scanDecimal t of Some (v, []) \<Rightarrow> v | _ \<Rightarrow> NaN))"

text \<open>
  \<open>ToNumber\<close>.  An array is first turned into the string that joins its elements with
  commas: the empty array gives the empty string, a single element its own string, and
  two or more elements a text with a comma, which is no numeric literal.  An object gives
  \<open>[object Object]\<close>.
\<close>

fun ToNumber :: "jsval \<Rightarrow> jsnum" where
  "ToNumber JUndefined = NaN"
| "ToNumber JNull = Fin 0"
| "ToNumber (JBool b) = (if b then Fin 1 else Fin 0)"
| "ToNumber (JNum n) = n"
| "ToNumber (JStr s) = StringToNumber s"
| "ToNumber (JObj _) = NaN"
| "ToNumber (JArr []) = Fin 0"
| "ToNumber (JArr [JUndefined]) = Fin 0"
| "ToNumber (JArr [JNull]) = Fin 0"
| "ToNumber (JArr [JBool b]) = NaN"
| "ToNumber (JArr [JNum n]) = n"
| "ToNumber (JArr [JStr s]) = StringToNumber s"
| "ToNumber (JArr [JObj _]) = NaN"
| "ToNumber (JArr [JArr ys]) = ToNumber (JArr ys)"
| "ToNumber (JArr (x # y # zs)) = NaN"

section \<open>The canonical record and its diagnostics\<close>

text \<open>
  \<open>ExtractedTaxData\<close>: the eight fields every extraction path is meant to fill.  The
  values come out of parsed model output, so a field holds whatever value was stored in
  it, and \<open>JUndefined\<close> when the property is absent.
\<close>

record ExtractedTaxData =
  taxpayerName :: jsval
  taxYear :: jsval
  totalIncome :: jsval
  totalExpenses :: jsval
  totalDeductions :: jsval
  taxableAmount :: jsval
  taxId :: jsval
  businessType :: jsval

text \<open>
  The texts pushed on the \<open>warnings\<close> and \<open>corrections\<close> arrays (and then written to
  the console), one constructor for each template, with the values the template
  interpolates.
\<close>

datatype message =
    RevenueCorrected jsval jsval
  | ProfitBeforeTaxCorrected jsval jsval
  | GrossProfitInconsistent
  | RetainedEarningsWithoutProfit
  | NetProfitExceedsProfitBeforeTax
  | TaxRateUnusuallyHigh jsnum
  | InvalidNumericValue string
  | RevenueZeroOrNegative
  | ExpensesCapped
  | TaxableCorrectedTo jsnum
  | TaxableDiffers

definition getDefaultTaxData :: "int \<Rightarrow> ExtractedTaxData" where
  "getDefaultTaxData currentYear =
     \<lparr> taxpayerName = JStr ''Not provided'',
       taxYear = JNum (Fin (of_int currentYear)),
       totalIncome = JNum (Fin 0),
       totalExpenses = JNum (Fin 0),
       totalDeductions = JNum (Fin 0),
       taxableAmount = JNum (Fin 0),
       taxId = JStr ''Not provided'',
       businessType = JStr ''Not specified'' \<rparr>"

section \<open>Soft constraints\<close>

definition validateNumericValue :: "jsval \<Rightarrow> jsnum" where
  "validateNumericValue v =
     (case v of
        JNum n \<Rightarrow> (if isNaN n \<or> \<not> isFinite n then Fin 0 else n)
      | _ \<Rightarrow> Fin 0)"

definition MAX_EXPENSE_RATIO :: jsnum where
  "MAX_EXPENSE_RATIO = Fin 5"

definition validateExpensesRatio :: "jsnum \<Rightarrow> jsnum \<Rightarrow> jsnum" where
  "validateExpensesRatio expenses income =
     (if num_gt income (Fin 0) \<and> num_gt expenses (num_mul income (Fin 3))
      then Math_min expenses (num_mul income MAX_EXPENSE_RATIO)
      else expenses)"

text \<open>The result object \<open>{value, warning?}\<close> is a pair; an absent warning is \<open>None\<close>.\<close>

definition validateTaxableAmount :: "jsnum \<Rightarrow> jsnum \<Rightarrow> jsnum \<Rightarrow> jsnum \<times> message option" where
  "validateTaxableAmount taxable calculatedTaxable income =
     (let taxableDifference = num_abs (num_sub calculatedTaxable taxable);
          significantDifference = Math_max (Fin 1000) (num_mul income (Fin (1 / 10)))
      in if num_gt taxableDifference significantDifference then
           (if num_eq taxable (Fin 0) \<and> \<not> num_eq calculatedTaxable (Fin 0)
            then (calculatedTaxable, Some (TaxableCorrectedTo calculatedTaxable))
            else (taxable, Some TaxableDiffers))
         else (taxable, None))"

definition numericFields :: "string list" where
  "numericFields = [''totalIncome'', ''totalExpenses'', ''totalDeductions'', ''taxableAmount'']"

definition getField :: "ExtractedTaxData \<Rightarrow> string \<Rightarrow> jsval" where
  "getField d f =
     (if f = ''totalIncome'' then totalIncome d
      else if f = ''totalExpenses'' then totalExpenses d
      else if f = ''totalDeductions'' then totalDeductions d
      else if f = ''taxableAmount'' then taxableAmount d
      else JUndefined)"

definition setField :: "ExtractedTaxData \<Rightarrow> string \<Rightarrow> jsval \<Rightarrow> ExtractedTaxData" where
  "setField d f v =
     (if f = ''totalIncome'' then d\<lparr>totalIncome := v\<rparr>
      else if f = ''totalExpenses'' then d\<lparr>totalExpenses := v\<rparr>
      else if f = ''totalDeductions'' then d\<lparr>totalDeductions := v\<rparr>
      else if f = ''taxableAmount'' then d\<lparr>taxableAmount := v\<rparr>
      else d)"

text \<open>The loop over \<open>numericFields\<close>, carrying the record and the warnings so far.\<close>

fun validateFields ::
  "string list \<Rightarrow> ExtractedTaxData \<times> message list \<Rightarrow> ExtractedTaxData \<times> message list" where
  "validateFields [] st = st"
| "validateFields (f # fs) (d, warnings) =
     (let originalValue = getField d f;
          validatedValue = validateNumericValue originalValue
      in if strict_neq (JNum validatedValue) originalValue
         then validateFields fs (setField d f (JNum validatedValue), warnings @ [InvalidNumericValue f])
         else validateFields fs (d, warnings))"

text \<open>
  \<open>applySoftConstraints\<close> returns the constrained record; the second component is the
  \<open>warnings\<close> array it writes to the console before returning.  After the loop the four
  numeric fields hold numbers, which \<open>ToNumber\<close> reads unchanged.
\<close>

definition applySoftConstraints :: "ExtractedTaxData \<Rightarrow> ExtractedTaxData \<times> message list" where
  "applySoftConstraints data =
     (let (c1, w1) = validateFields numericFields (data, []);
          w2 = (if num_le (ToNumber (totalIncome c1)) (Fin 0)
                   \<and> strict_neq (businessType c1) (JStr ''Holding Company'')
                then w1 @ [RevenueZeroOrNegative] else w1);
          validatedExpenses =
            validateExpensesRatio (ToNumber (totalExpenses c1)) (ToNumber (totalIncome c1));
          capped = strict_neq (JNum validatedExpenses) (totalExpenses c1);
          w3 = (if capped then w2 @ [ExpensesCapped] else w2);
          c2 = (if capped then c1\<lparr>totalExpenses := JNum validatedExpenses\<rparr> else c1);
          calculatedTaxable =
            num_sub (num_sub (ToNumber (totalIncome c2)) (ToNumber (totalExpenses c2)))
                    (ToNumber (totalDeductions c2));
          (validatedTaxable, taxableWarning) =
            validateTaxableAmount (ToNumber (taxableAmount c2)) calculatedTaxable
                                  (ToNumber (totalIncome c2))
      in case taxableWarning of
           Some w \<Rightarrow> (c2\<lparr>taxableAmount := JNum validatedTaxable\<rparr>, w3 @ [w])
         | None \<Rightarrow> (c2, w3))"

section \<open>Cross-validation against the validation payload\<close>

record CrossValidation =
  correctedRevenue :: "jsval option"
  correctedProfitBeforeTax :: "jsval option"
  warnings :: "message list"
  corrections :: "message list"

text \<open>
  \<open>performCrossValidation(validation, data)\<close>.  Both arguments are nodes of the parsed
  response, so every operand is coerced the way the operator coerces it.  A \<open>null\<close>
  correction is \<open>None\<close>.  \<open>toFixed\<close> only formats the rate, which is kept as a number.
\<close>

definition performCrossValidation :: "jsval \<Rightarrow> jsval \<Rightarrow> CrossValidation" where
  "performCrossValidation validation data =
     (let v_revenue = getProp validation ''revenue'';
          v_pbt = getProp validation ''profitBeforeTax'';
          v_npat = getProp validation ''netProfitAfterTax'';
          v_retained = getProp validation ''retainedEarnings'';
          v_cos = getProp validation ''costOfSales'';
          d_income = getProp data ''totalIncome'';
          d_taxable = getProp data ''taxableAmount'';
          d_expenses = getProp data ''totalExpenses'';
          fixRevenue =
            (truthy v_revenue \<and> strict_neq v_revenue d_income
             \<and> num_gt (ToNumber v_revenue) (Fin 0)
             \<and> (\<not> strict_neq d_income (JNum (Fin 0))
                \<or> num_gt (num_div (num_abs (num_sub (ToNumber v_revenue) (ToNumber d_income)))
                                  (ToNumber v_revenue))
                         (Fin (1 / 10))));
          fixProfit =
            (truthy v_pbt \<and> strict_neq v_pbt d_taxable
             \<and> num_gt (num_abs (num_sub (ToNumber v_pbt) (ToNumber d_taxable))) (Fin 100));
          cRevenue = (if fixRevenue then Some v_revenue else None);
          cProfit = (if fixProfit then Some v_pbt else None);
          revenue = (case cRevenue of Some r \<Rightarrow> js_or r d_income | None \<Rightarrow> d_income);
          grossProfit = num_sub (ToNumber revenue) (ToNumber d_expenses);
          expectedGrossProfit = num_sub (ToNumber revenue) (ToNumber v_cos);
          taxAmount = num_sub (ToNumber v_pbt) (ToNumber v_npat)
      in \<lparr> correctedRevenue = cRevenue,
           correctedProfitBeforeTax = cProfit,
           warnings =
             (if num_gt (ToNumber revenue) (Fin 0) \<and> num_gt (ToNumber d_expenses) (Fin 0)
                 \<and> truthy v_cos
                 \<and> num_gt (num_div (num_abs (num_sub grossProfit expectedGrossProfit))
                                   (ToNumber revenue))
                          (Fin (2 / 10))
              then [GrossProfitInconsistent] else [])
             @ (if truthy v_retained \<and> truthy v_npat
                   \<and> num_gt (ToNumber v_retained) (Fin 0) \<and> num_le (ToNumber v_npat) (Fin 0)
                then [RetainedEarningsWithoutProfit] else [])
             @ (if truthy v_pbt \<and> truthy v_npat then
                  (if num_lt taxAmount (Fin 0) then [NetProfitExceedsProfitBeforeTax]
                   else if num_gt (ToNumber v_pbt) (Fin 0)
                           \<and> num_gt (num_div taxAmount (ToNumber v_pbt)) (Fin (5 / 10))
                        then [TaxRateUnusuallyHigh
                                (num_mul (num_div taxAmount (ToNumber v_pbt)) (Fin 100))]
                   else [])
                else []),
           corrections =
             (if fixRevenue then [RevenueCorrected d_income v_revenue] else [])
             @ (if fixProfit then [ProfitBeforeTaxCorrected d_taxable v_pbt] else []) \<rparr>)"

text \<open>
  The eight canonical fields of an object: the spread \<open>{...data}\<close> copies every own
  property, and the canonical ones are those the callers read.
\<close>

definition recordOf :: "jsval \<Rightarrow> ExtractedTaxData" where
  "recordOf data =
     \<lparr> taxpayerName = getProp data ''taxpayerName'',
       taxYear = getProp data ''taxYear'',
       totalIncome = getProp data ''totalIncome'',
       totalExpenses = getProp data ''totalExpenses'',
       totalDeductions = getProp data ''totalDeductions'',
       taxableAmount = getProp data ''taxableAmount'',
       taxId = getProp data ''taxId'',
       businessType = getProp data ''businessType'' \<rparr>"

text \<open>
  \<open>validateExtractedData\<close>: the record returned, and the corrections and warnings it
  logs on the way (those of the cross-validation, then those of the soft constraints).
\<close>

definition validateExtractedData ::
  "jsval \<Rightarrow> ExtractedTaxData \<times> message list \<times> message list" where
  "validateExtractedData data =
     (let validationData = getProp data ''validationData'';
          validatedData = recordOf data
      in if truthy validationData then
           (let validationResults = performCrossValidation validationData data;
                v1 = (case correctedRevenue validationResults of
                        Some r \<Rightarrow> validatedData\<lparr>totalIncome := r\<rparr>
                      | None \<Rightarrow> validatedData);
                v2 = (case correctedProfitBeforeTax validationResults of
                        Some p \<Rightarrow> v1\<lparr>taxableAmount := p\<rparr>
                      | None \<Rightarrow> v1);
                (v3, w) = applySoftConstraints v2
            in (v3, corrections validationResults, warnings validationResults @ w))
         else
           (let (v3, w) = applySoftConstraints validatedData in (v3, [], w)))"

section \<open>Regular expressions\<close>

text \<open>
  The program reads its figures out of text with regular expressions.  They are embedded
  as syntax trees with the backtracking semantics of the language definition: of an
  alternative the left branch is tried first, a greedy star prefers one more iteration
  and a lazy star one fewer, and an iteration that matches the empty string is not
  repeated.  A string is a list of code units in the range of \<open>char\<close>; an atom for a
  code unit beyond that range is \<open>Unrepresented\<close> and matches nothing.
\<close>

datatype cclass =
    Lit char
  | LitI char
  | Range char char
  | Digit
  | Space
  | Word
  | AnyChar
  | OneOf "cclass list"
  | NoneOf "cclass list"
  | Unrepresented

text \<open>The code of a code unit with the upper-case letters \<open>A\<close> to \<open>Z\<close> folded onto the lower-case ones.\<close>

definition lower :: "char \<Rightarrow> nat" where
  "lower c = (if 65 \<le> (of_char c :: nat) \<and> (of_char c :: nat) \<le> 90
              then (of_char c :: nat) + 32 else of_char c)"

definition isWordChar :: "char \<Rightarrow> bool" where
  "isWordChar c =
     (let n = (of_char c :: nat)
      in (48 \<le> n \<and> n \<le> 57) \<or> (65 \<le> n \<and> n \<le> 90) \<or> (97 \<le> n \<and> n \<le> 122) \<or> n = 95)"

definition isLineTerminator :: "char \<Rightarrow> bool" where
  "isLineTerminator c = (c = CHR 0x0A \<or> c = CHR 0x0D)"

fun cls_ok :: "cclass \<Rightarrow> char \<Rightarrow> bool" where
  "cls_ok (Lit c) x = (x = c)"
| "cls_ok (LitI c) x = (lower x = lower c)"
| "cls_ok (Range a b) x = ((of_char a :: nat) \<le> of_char x \<and> (of_char x :: nat) \<le> of_char b)"
| "cls_ok Digit x = isDigit x"
| "cls_ok Space x = isWhiteSpace x"
| "cls_ok Word x = isWordChar x"
| "cls_ok AnyChar x = (\<not> isLineTerminator x)"
| "cls_ok (OneOf cs) x = list_ex (\<lambda>c. cls_ok c x) cs"
| "cls_ok (NoneOf cs) x = (\<not> list_ex (\<lambda>c. cls_ok c x) cs)"
| "cls_ok Unrepresented x = False"

datatype rx =
    Chr cclass
  | Eps
  | Seq rx rx
  | Alt rx rx
  | Star rx
  | LazyStar rx
  | Grp nat rx
  | Bol
  | WordB
  | Never

text \<open>
  A state of the matcher: the code unit before the current position (for the
  assertions), the text from the current position on, and the captures made so far.
\<close>

type_synonym mstate = "char option \<times> string \<times> (nat \<times> string) list"

definition ms_rest :: "mstate \<Rightarrow> string" where
  "ms_rest st = fst (snd st)"

definition ms_caps :: "mstate \<Rightarrow> (nat \<times> string) list" where
  "ms_caps st = snd (snd st)"

text \<open>
  The iterations of a star, in the order backtracking tries them.  Every iteration
  consumes at least one code unit, so as many rounds as the text is long are all there
  can be.
\<close>

fun star_iter :: "nat \<Rightarrow> (mstate \<Rightarrow> mstate list) \<Rightarrow> mstate \<Rightarrow> mstate list" where
  "star_iter 0 f st = [st]"
| "star_iter (Suc n) f st =
     concat (map (star_iter n f)
               (filter (\<lambda>st'. length (ms_rest st') < length (ms_rest st)) (f st)))
     @ [st]"

fun lazy_iter :: "nat \<Rightarrow> (mstate \<Rightarrow> mstate list) \<Rightarrow> mstate \<Rightarrow> mstate list" where
  "lazy_iter 0 f st = [st]"
| "lazy_iter (Suc n) f st =
     st # concat (map (lazy_iter n f)
               (filter (\<lambda>st'. length (ms_rest st') < length (ms_rest st)) (f st)))"

text \<open>All the ways a pattern matches at the current position, best first.\<close>

primrec rxm :: "rx \<Rightarrow> mstate \<Rightarrow> mstate list" where
  "rxm (Chr c) st =
     (case ms_rest st of
        [] \<Rightarrow> []
      | x # xs \<Rightarrow> if cls_ok c x then [(Some x, xs, ms_caps st)] else [])"
| "rxm Eps st = [st]"
| "rxm (Seq a b) st = concat (map (rxm b) (rxm a st))"
| "rxm (Alt a b) st = rxm a st @ rxm b st"
| "rxm (Star a) st = star_iter (length (ms_rest st)) (rxm a) st"
| "rxm (LazyStar a) st = lazy_iter (length (ms_rest st)) (rxm a) st"
| "rxm (Grp n a) st =
     map (\<lambda>st'. (fst st', ms_rest st',
                  (n, take (length (ms_rest st) - length (ms_rest st')) (ms_rest st))
                    # filter (\<lambda>p. fst p \<noteq> n) (ms_caps st')))
         (rxm a st)"
| "rxm Bol st =
     (case fst st of None \<Rightarrow> [st] | Some p \<Rightarrow> if isLineTerminator p then [st] else [])"
| "rxm WordB st =
     (let wordBefore = (case fst st of None \<Rightarrow> False | Some p \<Rightarrow> isWordChar p);
          wordAfter = (case ms_rest st of [] \<Rightarrow> False | x # _ \<Rightarrow> isWordChar x)
      in if wordBefore \<noteq> wordAfter then [st] else [])"
| "rxm Never st = []"

text \<open>Abbreviations for writing the patterns of the source.\<close>

definition Plus :: "rx \<Rightarrow> rx" where
  "Plus r = Seq r (Star r)"

definition Opt :: "rx \<Rightarrow> rx" where
  "Opt r = Alt r Eps"

definition Seqs :: "rx list \<Rightarrow> rx" where
  "Seqs rs = foldr Seq rs Eps"

definition Alts :: "rx list \<Rightarrow> rx" where
  "Alts rs = foldr Alt rs Never"

definition lit :: "string \<Rightarrow> rx" where
  "lit s = Seqs (map (\<lambda>c. Chr (Lit c)) s)"

definition litI :: "string \<Rightarrow> rx" where
  "litI s = Seqs (map (\<lambda>c. Chr (LitI c)) s)"

text \<open>
  A match: where it starts, the text matched, the captures, and the text after it.
  \<open>rx_exec\<close> is the search of \<open>RegExp.prototype.exec\<close> for a pattern without the
  \<open>g\<close> flag: the leftmost position at which the pattern matches, and there the first
  way it does.
\<close>

record rmatch =
  m_index :: nat
  m_text :: string
  m_caps :: "(nat \<times> string) list"
  m_after :: string

fun rx_search :: "rx \<Rightarrow> nat \<Rightarrow> char option \<Rightarrow> string \<Rightarrow> rmatch option" where
  "rx_search r i p s =
     (case rxm r (p, s, []) of
        st # _ \<Rightarrow>
          Some \<lparr> m_index = i, m_text = take (length s - length (ms_rest st)) s,
                 m_caps = ms_caps st, m_after = ms_rest st \<rparr>
      | [] \<Rightarrow> (case s of [] \<Rightarrow> None | c # cs \<Rightarrow> rx_search r (Suc i) (Some c) cs))"

definition rx_exec :: "rx \<Rightarrow> string \<Rightarrow> rmatch option" where
  "rx_exec r s = rx_search r 0 None s"

definition rx_test :: "rx \<Rightarrow> string \<Rightarrow> bool" where
  "rx_test r s = (rx_exec r s \<noteq> None)"

text \<open>\<open>match[n]\<close>: the text of group \<open>n\<close>, \<open>None\<close> when the group took no part.\<close>

definition group :: "rmatch \<Rightarrow> nat \<Rightarrow> string option" where
  "group m n = map_of (m_caps m) n"

text \<open>
  \<open>String.prototype.replace\<close> with a \<open>g\<close> pattern and a replacement template: the
  template is a list of literal pieces and group references, and a group that took no
  part is replaced by the empty string.  The counter skips the code units of a match
  already replaced; after an empty match one code unit is copied.
\<close>

datatype piece = Text string | Ref nat

definition expand :: "piece list \<Rightarrow> (nat \<times> string) list \<Rightarrow> string" where
  "expand tmpl caps =
     concat (map (\<lambda>p. case p of Text t \<Rightarrow> t
                               | Ref n \<Rightarrow> (case map_of caps n of Some t \<Rightarrow> t | None \<Rightarrow> [])) tmpl)"

fun replace_from :: "rx \<Rightarrow> piece list \<Rightarrow> char option \<Rightarrow> nat \<Rightarrow> string \<Rightarrow> string" where
  "replace_from r tmpl p (Suc k) (c # cs) = replace_from r tmpl (Some c) k cs"
| "replace_from r tmpl p (Suc k) [] = []"
| "replace_from r tmpl p 0 s =
     (case rxm r (p, s, []) of
        st # _ \<Rightarrow>
          expand tmpl (ms_caps st) @
            (case s of
               [] \<Rightarrow> []
             | c # cs \<Rightarrow>
                 (let k = length s - length (ms_rest st)
                  in if k = 0 then c # replace_from r tmpl (Some c) 0 cs
                     else replace_from r tmpl (Some c) (k - 1) cs))
      | [] \<Rightarrow> (case s of [] \<Rightarrow> [] | c # cs \<Rightarrow> c # replace_from r tmpl (Some c) 0 cs))"

definition replace_all :: "rx \<Rightarrow> piece list \<Rightarrow> string \<Rightarrow> string" where
  "replace_all r tmpl s = replace_from r tmpl None 0 s"

section \<open>String methods\<close>

text \<open>\<open>s.split(c)\<close> for a one-character separator.\<close>

fun split_on :: "char \<Rightarrow> string \<Rightarrow> string list" where
  "split_on c [] = [[]]"
| "split_on c (x # xs) =
     (if x = c then [] # split_on c xs
      else (case split_on c xs of y # ys \<Rightarrow> (x # y) # ys | [] \<Rightarrow> [[x]]))"

text \<open>\<open>ws.join(' ')\<close>.\<close>

fun join_with :: "char \<Rightarrow> string list \<Rightarrow> string" where
  "join_with c [] = []"
| "join_with c [w] = w"
| "join_with c (w # ws) = w @ c # join_with c ws"

definition includes_char :: "string \<Rightarrow> char \<Rightarrow> bool" where
  "includes_char s c = (c \<in> set s)"

text \<open>\<open>s.includes(t)\<close>: \<open>t\<close> occurs in \<open>s\<close> as a substring.\<close>

fun includes_str :: "string \<Rightarrow> string \<Rightarrow> bool" where
  "includes_str [] t = (t = [])"
| "includes_str (x # xs) t = (take (length t) (x # xs) = t \<or> includes_str xs t)"

section \<open>\<open>JSON.parse\<close>\<close>

text \<open>
  The parser of the language definition, on the modelled strings.  A text is first cut
  into tokens by a scanner that reads one code unit at a time, then the tokens drive a
  stack of the arrays and objects still open.  A \<open>SyntaxError\<close> is \<open>None\<close>.  An escape
  \<open>\uXXXX\<close> for a code unit beyond the range of \<open>char\<close> denotes a string outside the
  model; such a text is given no value here.
\<close>

datatype jtoken = TLBrace | TRBrace | TLBrack | TRBrack | TColon | TComma | TValue jsval

datatype lexmode =
    LStart
  | LStr string
  | LEsc string
  | LUni string string
  | LNum string
  | LWord string

text \<open>
  A number token: an optional minus, an integer part without a leading zero, an optional
  fraction with at least one digit, an optional exponent.
\<close>

definition json_number :: "string \<Rightarrow> jsnum option" where
  "json_number s =
     (let r = (if s \<noteq> [] \<and> hd s = CHR ''-'' then tl s else s);
          ip = takeWhile isDigit r;
          r2 = dropWhile isDigit r;
          dot = (r2 \<noteq> [] \<and> hd r2 = CHR ''.'');
          fp = (if dot then takeWhile isDigit (tl r2) else [])
      in if ip = [] then None
         else if 1 < length ip \<and> hd ip = CHR ''0'' then None
         else if dot \<and> fp = [] then None
         else (case scanDecimal s of Some (v, []) \<Rightarrow> Some v | _ \<Rightarrow> None))"

definition json_word :: "string \<Rightarrow> jsval option" where
  "json_word w =
     (if w = ''true'' then Some (JBool True)
      else if w = ''false'' then Some (JBool False)
      else if w = ''null'' then Some JNull
      else None)"

definition isJsonSpace :: "char \<Rightarrow> bool" where
  "isJsonSpace c = (c = CHR 0x20 \<or> c = CHR 0x09 \<or> c = CHR 0x0A \<or> c = CHR 0x0D)"

definition isNumberChar :: "char \<Rightarrow> bool" where
  "isNumberChar c =
     (isDigit c \<or> c = CHR ''-'' \<or> c = CHR ''+'' \<or> c = CHR ''.'' \<or> c = CHR ''e'' \<or> c = CHR ''E'')"

definition isLetter :: "char \<Rightarrow> bool" where
  "isLetter c = (97 \<le> (of_char c :: nat) \<and> (of_char c :: nat) \<le> 122)"

definition punctuation :: "char \<Rightarrow> jtoken option" where
  "punctuation c =
     (if c = CHR ''{'' then Some TLBrace
      else if c = CHR ''}'' then Some TRBrace
      else if c = CHR ''['' then Some TLBrack
      else if c = CHR '']'' then Some TRBrack
      else if c = CHR '':'' then Some TColon
      else if c = CHR '','' then Some TComma
      else None)"

definition escaped :: "char \<Rightarrow> char option" where
  "escaped c =
     (if c = CHR 0x22 then Some (CHR 0x22)
      else if c = CHR 0x5C then Some (CHR 0x5C)
      else if c = CHR ''/'' then Some (CHR ''/'')
      else if c = CHR ''b'' then Some (CHR 0x08)
      else if c = CHR ''f'' then Some (CHR 0x0C)
      else if c = CHR ''n'' then Some (CHR 0x0A)
      else if c = CHR ''r'' then Some (CHR 0x0D)
      else if c = CHR ''t'' then Some (CHR 0x09)
      else None)"

definition emit :: "jtoken \<Rightarrow> jtoken list option \<Rightarrow> jtoken list option" where
  "emit t r = map_option (Cons t) r"

text \<open>What a code unit starts when no token is open; \<open>None\<close> when it starts none.\<close>

definition opens :: "char \<Rightarrow> lexmode option" where
  "opens c =
     (if c = CHR 0x22 then Some (LStr [])
      else if isDigit c \<or> c = CHR ''-'' then Some (LNum [c])
      else if isLetter c then Some (LWord [c])
      else None)"

fun jlex :: "lexmode \<Rightarrow> string \<Rightarrow> jtoken list option" where
  "jlex LStart [] = Some []"
| "jlex LStart (c # cs) =
     (if isJsonSpace c then jlex LStart cs
      else (case punctuation c of
              Some t \<Rightarrow> emit t (jlex LStart cs)
            | None \<Rightarrow> (case opens c of Some m \<Rightarrow> jlex m cs | None \<Rightarrow> None)))"
| "jlex (LStr acc) [] = None"
| "jlex (LStr acc) (c # cs) =
     (if c = CHR 0x22 then emit (TValue (JStr (rev acc))) (jlex LStart cs)
      else if c = CHR 0x5C then jlex (LEsc acc) cs
      else if (of_char c :: nat) < 32 then None
      else jlex (LStr (c # acc)) cs)"
| "jlex (LEsc acc) [] = None"
| "jlex (LEsc acc) (c # cs) =
     (if c = CHR ''u'' then jlex (LUni acc []) cs
      else (case escaped c of Some e \<Rightarrow> jlex (LStr (e # acc)) cs | None \<Rightarrow> None))"
| "jlex (LUni acc h) [] = None"
| "jlex (LUni acc h) (c # cs) =
     (case radixDigit 16 c of
        None \<Rightarrow> None
      | Some d \<Rightarrow>
          if length h < 3 then jlex (LUni acc (h @ [c])) cs
          else (let code = foldl (\<lambda>a x. 16 * a + (case radixDigit 16 x of Some v \<Rightarrow> v | None \<Rightarrow> 0))
                             0 (h @ [c])
                in if code < 256 then jlex (LStr (char_of code # acc)) cs else None))"
| "jlex (LNum acc) [] =
     (case json_number (rev acc) of Some n \<Rightarrow> Some [TValue (JNum n)] | None \<Rightarrow> None)"
| "jlex (LNum acc) (c # cs) =
     (if isNumberChar c then jlex (LNum (c # acc)) cs
      else (case json_number (rev acc) of
              None \<Rightarrow> None
            | Some n \<Rightarrow>
                emit (TValue (JNum n))
                  (if isJsonSpace c then jlex LStart cs
                   else (case punctuation c of
                           Some t \<Rightarrow> emit t (jlex LStart cs)
                         | None \<Rightarrow> (case opens c of Some m \<Rightarrow> jlex m cs | None \<Rightarrow> None)))))"
| "jlex (LWord acc) [] =
     (case json_word (rev acc) of Some v \<Rightarrow> Some [TValue v] | None \<Rightarrow> None)"
| "jlex (LWord acc) (c # cs) =
     (if isLetter c then jlex (LWord (c # acc)) cs
      else (case json_word (rev acc) of
              None \<Rightarrow> None
            | Some v \<Rightarrow>
                emit (TValue v)
                  (if isJsonSpace c then jlex LStart cs
                   else (case punctuation c of
                           Some t \<Rightarrow> emit t (jlex LStart cs)
                         | None \<Rightarrow> (case opens c of Some m \<Rightarrow> jlex m cs | None \<Rightarrow> None)))))"

text \<open>
  The containers still open: an array with the elements read so far, an object with its
  members so far and the key whose value is awaited.  A repeated key keeps its place
  and takes the later value.
\<close>

datatype frame = FArr "jsval list" | FObj "(string \<times> jsval) list" "string option"

datatype pmode = MValue | MArrFirst | MObjFirst | MKey | MColon string | MAfter | MDone jsval

fun put_member :: "(string \<times> jsval) list \<Rightarrow> string \<Rightarrow> jsval \<Rightarrow> (string \<times> jsval) list" where
  "put_member [] k v = [(k, v)]"
| "put_member ((k', v') # ps) k v =
     (if k' = k then (k, v) # ps else (k', v') # put_member ps k v)"

text \<open>A value is complete: it is the result, or goes into the innermost open container.\<close>

fun complete :: "jsval \<Rightarrow> frame list \<Rightarrow> (frame list \<times> pmode) option" where
  "complete v [] = Some ([], MDone v)"
| "complete v (FArr xs # st) = Some (FArr (xs @ [v]) # st, MAfter)"
| "complete v (FObj ps (Some k) # st) = Some (FObj (put_member ps k v) None # st, MAfter)"
| "complete v (FObj ps None # st) = None"

fun close_array :: "frame list \<Rightarrow> (frame list \<times> pmode) option" where
  "close_array (FArr xs # st) = complete (JArr xs) st"
| "close_array _ = None"

fun close_object :: "frame list \<Rightarrow> (frame list \<times> pmode) option" where
  "close_object (FObj ps None # st) = complete (JObj ps) st"
| "close_object _ = None"

fun pstep :: "frame list \<times> pmode \<Rightarrow> jtoken \<Rightarrow> (frame list \<times> pmode) option" where
  "pstep (st, MValue) (TValue v) = complete v st"
| "pstep (st, MValue) TLBrace = Some (FObj [] None # st, MObjFirst)"
| "pstep (st, MValue) TLBrack = Some (FArr [] # st, MArrFirst)"
| "pstep (st, MArrFirst) (TValue v) = complete v st"
| "pstep (st, MArrFirst) TLBrace = Some (FObj [] None # st, MObjFirst)"
| "pstep (st, MArrFirst) TLBrack = Some (FArr [] # st, MArrFirst)"
| "pstep (st, MArrFirst) TRBrack = close_array st"
| "pstep (st, MObjFirst) (TValue (JStr k)) = Some (st, MColon k)"
| "pstep (st, MObjFirst) TRBrace = close_object st"
| "pstep (st, MKey) (TValue (JStr k)) = Some (st, MColon k)"
| "pstep (FObj ps None # st, MColon k) TColon = Some (FObj ps (Some k) # st, MValue)"
| "pstep (FArr xs # st, MAfter) TComma = Some (FArr xs # st, MValue)"
| "pstep (FArr xs # st, MAfter) TRBrack = close_array (FArr xs # st)"
| "pstep (FObj ps None # st, MAfter) TComma = Some (FObj ps None # st, MKey)"
| "pstep (FObj ps None # st, MAfter) TRBrace = close_object (FObj ps None # st)"
| "pstep _ _ = None"

fun prun :: "frame list \<times> pmode \<Rightarrow> jtoken list \<Rightarrow> jsval option" where
  "prun (st, m) [] = (case (st, m) of ([], MDone v) \<Rightarrow> Some v | _ \<Rightarrow> None)"
| "prun (st, m) (t # ts) =
     (case pstep (st, m) t of None \<Rightarrow> None | Some s' \<Rightarrow> prun s' ts)"

definition JSON_parse :: "string \<Rightarrow> jsval option" where
  "JSON_parse s = (case jlex LStart s of None \<Rightarrow> None | Some ts \<Rightarrow> prun ([], MValue) ts)"

section \<open>Reading figures and names out of text\<close>

text \<open>Pieces that many patterns of the source share.\<close>

definition spaces1 :: rx where
  "spaces1 = Plus (Chr Space)"

definition spaces0 :: rx where
  "spaces0 = Star (Chr Space)"

definition anything :: rx where
  "anything = Star (Chr AnyChar)"

definition optS :: "string \<Rightarrow> rx" where
  "optS w = Seq (litI w) (Opt (Chr (LitI CHR ''s'')))"

text \<open>\<open>[^\d]+([-\d,()]+)\<close>, the tail of every pattern of \<open>extractTaxAmounts\<close>.\<close>

definition amountTail :: rx where
  "amountTail =
     Seq (Plus (Chr (NoneOf [Digit])))
         (Grp 1 (Plus (Chr (OneOf [Lit CHR ''-'', Digit, Lit CHR '','', Lit CHR ''('', Lit CHR '')'']))))"

text \<open>\<open>\d{1,3}(?:,\d{3})*(?:\.\d+)?\<close> and \<open>[\d,]+(?:\.\d+)?\<close>.\<close>

definition fraction :: rx where
  "fraction = Opt (Seq (Chr (Lit CHR ''.'')) (Plus (Chr Digit)))"

definition groupedNumber :: rx where
  "groupedNumber =
     Seqs [Chr Digit, Opt (Seq (Chr Digit) (Opt (Chr Digit))),
           Star (Seqs [Chr (Lit CHR '',''), Chr Digit, Chr Digit, Chr Digit]),
           fraction]"

definition commaNumber :: rx where
  "commaNumber = Seq (Plus (Chr (OneOf [Digit, Lit CHR '',''])) ) fraction"

text \<open>
  The currency signs as the source file has them: \<open>GH\<close> followed by the code units
  \<open>0xAC\<close> and \<open>0xA2\<close>, or a three-unit sign whose first code unit is \<open>0x201A\<close>.
\<close>

definition cedisGH :: rx where
  "cedisGH = Seqs [Chr (LitI CHR ''G''), Chr (LitI CHR ''H''), Chr (Lit (CHR 0xAC)), Chr (Lit (CHR 0xA2))]"

definition cedisSign :: rx where
  "cedisSign =
     Alt (Seqs [Chr (Lit CHR ''G''), Chr (Lit CHR ''H''), Chr (Lit (CHR 0xAC)), Chr (Lit (CHR 0xA2))])
         (Seqs [Chr Unrepresented, Chr (Lit (CHR 0xC7)), Chr (Lit (CHR 0xB5))])"

definition removeCommas :: "string \<Rightarrow> string" where
  "removeCommas s = filter (\<lambda>c. c \<noteq> CHR '','') s"

text \<open>\<open>parseAmount(match)\<close>, on the result of \<open>String.prototype.match\<close>.\<close>

definition parseAmount :: "rmatch option \<Rightarrow> jsnum" where
  "parseAmount mt =
     (case mt of
        None \<Rightarrow> Fin 0
      | Some m \<Rightarrow>
          (case group m 1 of
             None \<Rightarrow> Fin 0
           | Some g \<Rightarrow>
               if g = [] then Fin 0
               else
                 (let numStr = removeCommas g
                  in if includes_char numStr CHR ''('' \<and> includes_char numStr CHR '')''
                     then num_neg (parseFloat (filter (\<lambda>c. c \<noteq> CHR ''('' \<and> c \<noteq> CHR '')'') numStr))
                     else parseFloat numStr)))"

text \<open>The year: the first \<open>20\d{2}\<close> of the text, else the current year.\<close>

definition rx_year :: rx where
  "rx_year = Seqs [lit ''20'', Chr Digit, Chr Digit]"

definition extractYearFromText :: "int \<Rightarrow> string \<Rightarrow> jsnum" where
  "extractYearFromText currentYear text =
     (case rx_exec rx_year text of
        Some m \<Rightarrow> parseInt10 (m_text m)
      | None \<Rightarrow> Fin (of_int currentYear))"

text \<open>The company name and business type.\<close>

definition rx_limitedLine :: rx where
  "rx_limitedLine = Seqs [WordB, Plus (Chr Word), anything, litI ''LIMITED'', WordB]"

definition rx_limited :: rx where
  "rx_limited = litI ''LIMITED''"

definition rx_companyPattern :: rx where
  "rx_companyPattern =
     Seq Bol
       (Grp 1 (Seqs [Chr (Range CHR ''A'' CHR ''Z''),
                     Plus (Chr (OneOf [Range CHR ''A'' CHR ''Z'', Space, Lit CHR ''&''])),
                     Alts [lit ''COMPANY'', lit ''LIMITED'', lit ''LTD'', lit ''INC'', lit ''CORP'']]))"

definition rx_technology :: rx where
  "rx_technology = Alts [litI ''TECHNOLOGY'', litI ''TECH'', litI ''SOFTWARE'', litI ''IT'']"

definition rx_trading :: rx where
  "rx_trading = Alts [litI ''TRADING'', litI ''TRADE'']"

definition rx_construction :: rx where
  "rx_construction = Alts [litI ''CONSTRUCTION'', litI ''BUILD'']"

text \<open>\<open>words.findIndex(w => /LIMITED/i.test(w))\<close>; \<open>None\<close> is the result \<open>-1\<close>.\<close>

fun findIndex :: "('a \<Rightarrow> bool) \<Rightarrow> 'a list \<Rightarrow> nat option" where
  "findIndex P [] = None"
| "findIndex P (x # xs) = (if P x then Some 0 else map_option Suc (findIndex P xs))"

text \<open>
  The loop over the lines: the first line that, trimmed, is not empty and passes the
  test; the business type is the words before the first one that holds \<open>LIMITED\<close>,
  when there is a word before it.
\<close>

fun limitedLine :: "string list \<Rightarrow> (string \<times> string) option" where
  "limitedLine [] = None"
| "limitedLine (line # lines) =
     (let trimmedLine = trim line
      in if trimmedLine \<noteq> [] \<and> rx_test rx_limitedLine trimmedLine then
           (let wordList = split_on CHR '' '' trimmedLine
            in case findIndex (rx_test rx_limited) wordList of
                 Some (Suc k) \<Rightarrow> Some (trimmedLine, trim (join_with CHR '' '' (take (Suc k) wordList)))
               | _ \<Rightarrow> Some (trimmedLine, ''Not provided''))
         else limitedLine lines)"

definition inferType :: "string \<Rightarrow> string" where
  "inferType name =
     (if rx_test rx_technology name then ''Technology''
      else if rx_test rx_trading name then ''Trading''
      else if rx_test rx_construction name then ''Construction''
      else ''Not provided'')"

definition extractCompanyInfo :: "string \<Rightarrow> string \<times> string" where
  "extractCompanyInfo text =
     (case limitedLine (split_on CHR 0x0A text) of
        Some (name, type) \<Rightarrow> (name, type)
      | None \<Rightarrow>
          (case rx_exec rx_companyPattern text of
             Some m \<Rightarrow>
               (let name = trim (case group m 1 of Some g \<Rightarrow> g | None \<Rightarrow> [])
                in (name, inferType name))
           | None \<Rightarrow> (''Not provided'', ''Not provided'')))"

text \<open>
  \<open>extractCompanyDetails\<close>, the method of the class: the same two patterns, then the
  header phrasings, the first of which gives a name of 4 to 99 code units.
\<close>

definition headerPatterns :: "rx list" where
  "headerPatterns =
     [Seqs [litI ''Statement'', spaces1, litI ''of'', anything, litI ''for'', spaces1,
            Grp 1 (Plus (Chr AnyChar))],
      Seqs [litI ''Financial'', spaces1, litI ''Statements'', anything, litI ''of'', spaces1,
            Grp 1 (Plus (Chr AnyChar))],
      Seqs [Grp 1 (Plus (Chr AnyChar)), spaces1, litI ''Financial'', spaces1, litI ''Statements'']]"

fun headerName :: "rx list \<Rightarrow> string \<Rightarrow> string option" where
  "headerName [] text = None"
| "headerName (p # ps) text =
     (case rx_exec p text of
        None \<Rightarrow> headerName ps text
      | Some m \<Rightarrow>
          (case group m 1 of
             None \<Rightarrow> headerName ps text
           | Some g \<Rightarrow>
               if g = [] then headerName ps text
               else (let extracted = trim g
                     in if 3 < length extracted \<and> length extracted < 100 then Some extracted
                        else headerName ps text)))"

definition extractCompanyDetails :: "string \<Rightarrow> string \<times> string" where
  "extractCompanyDetails documentText =
     (let (companyName, businessType) = extractCompanyInfo documentText
      in if companyName = ''Not provided'' then
           (case headerName headerPatterns documentText of
              Some n \<Rightarrow> (n, businessType)
            | None \<Rightarrow> (companyName, businessType))
         else (companyName, businessType))"

definition extractTaxYear :: "int \<Rightarrow> string \<Rightarrow> jsnum" where
  "extractTaxYear currentYear documentText = extractYearFromText currentYear documentText"

text \<open>\<open>extractTaxAmounts\<close>: the figures of the text-extraction fallback.\<close>

definition rx_revenue :: rx where
  "rx_revenue = Seq (litI ''Revenue'') amountTail"

definition rx_otherIncome :: rx where
  "rx_otherIncome = Seqs [litI ''Other'', spaces1, litI ''income'', amountTail]"

definition rx_generalExpenses :: rx where
  "rx_generalExpenses =
     Seqs [Alts [litI ''General'', litI ''Administrative'', litI ''Operating''], spaces1,
           optS ''expense'', amountTail]"

definition rx_costOfSales :: rx where
  "rx_costOfSales = Seqs [litI ''Cost'', spaces1, litI ''of'', spaces1, litI ''sales'', amountTail]"

definition rx_directExpenses :: rx where
  "rx_directExpenses = Seqs [litI ''Direct'', spaces1, optS ''expense'', amountTail]"

definition rx_capitalAllowances :: rx where
  "rx_capitalAllowances = Seqs [litI ''Capital'', spaces1, optS ''allowance'', amountTail]"

definition rx_depreciation :: rx where
  "rx_depreciation = Seq (litI ''Depreciation'') amountTail"

definition rx_taxRelief :: rx where
  "rx_taxRelief = Seqs [litI ''Tax'', spaces1, litI ''relief'', amountTail]"

definition rx_allowableDeductions :: rx where
  "rx_allowableDeductions = Seqs [litI ''Allowable'', spaces1, optS ''deduction'', amountTail]"

definition rx_profitBeforeTax :: rx where
  "rx_profitBeforeTax =
     Seqs [litI ''Profit'', spaces1, litI ''before'', spaces1, litI ''tax'', amountTail]"

record TaxAmounts =
  ta_totalIncome :: jsnum
  ta_totalExpenses :: jsnum
  ta_totalDeductions :: jsnum
  ta_taxableAmount :: jsnum

text \<open>The result object, with the residual in place of a taxable amount of \<open>0\<close>.\<close>

definition taxAmounts :: "jsnum \<Rightarrow> jsnum \<Rightarrow> jsnum \<Rightarrow> jsnum \<Rightarrow> TaxAmounts" where
  "taxAmounts income expenses deductions taxable =
     \<lparr> ta_totalIncome = income,
       ta_totalExpenses = expenses,
       ta_totalDeductions = deductions,
       ta_taxableAmount =
         (if num_eq taxable (Fin 0) then num_sub (num_sub income expenses) deductions
          else taxable) \<rparr>"

definition extractTaxAmounts :: "string \<Rightarrow> TaxAmounts" where
  "extractTaxAmounts content =
     taxAmounts
       (num_add (parseAmount (rx_exec rx_revenue content))
                (parseAmount (rx_exec rx_otherIncome content)))
       (foldl (\<lambda>sum mt. num_add sum (parseAmount mt)) (Fin 0)
          [rx_exec rx_generalExpenses content, rx_exec rx_costOfSales content,
           rx_exec rx_directExpenses content])
       (foldl (\<lambda>sum mt. num_add sum (parseAmount mt)) (Fin 0)
          [rx_exec rx_capitalAllowances content, rx_exec rx_depreciation content,
           rx_exec rx_taxRelief content, rx_exec rx_allowableDeductions content])
       (parseAmount (rx_exec rx_profitBeforeTax content))"

text \<open>
  \<open>extractAmountFromText(text, pattern)\<close>.  The function looks at the source text of
  the pattern it is given, so a pattern comes with it.
\<close>

record textPattern =
  tp_source :: string
  tp_rx :: rx

definition pat_revenue :: textPattern where
  "pat_revenue = \<lparr> tp_source = ''revenue|sales|turnover'',
                     tp_rx = Alts [litI ''revenue'', litI ''sales'', litI ''turnover''] \<rparr>"

definition pat_expenses :: textPattern where
  "pat_expenses = \<lparr> tp_source = ''expenses|costs'',
                      tp_rx = Alts [litI ''expenses'', litI ''costs''] \<rparr>"

definition pat_profit :: textPattern where
  "pat_profit = \<lparr> tp_source = ''profit.*before.*tax'',
                    tp_rx = Seqs [litI ''profit'', anything, litI ''before'', anything, litI ''tax''] \<rparr>"

definition pat_deductions :: textPattern where
  "pat_deductions = \<lparr> tp_source = ''capital.*allowances?|deductions?'',
                        tp_rx = Alt (Seqs [litI ''capital'', anything, optS ''allowance''])
                                    (optS ''deduction'') \<rparr>"

text \<open>The four attempts on a line, in the order of the array \<open>numberMatches\<close>.\<close>

definition lineNumberPatterns :: "rx list" where
  "lineNumberPatterns =
     [Seqs [Chr (Lit CHR ''(''), spaces0, Opt cedisSign, spaces0, Grp 1 commaNumber, spaces0,
            Chr (Lit CHR '')'')],
      Seqs [cedisSign, spaces0, Grp 1 commaNumber],
      Seqs [Chr (Lit CHR ''(''), spaces0, Grp 1 commaNumber, spaces0, Chr (Lit CHR '')'')],
      Grp 1 commaNumber]"

fun firstAmount :: "rmatch option list \<Rightarrow> jsnum option" where
  "firstAmount [] = None"
| "firstAmount (None # ms) = firstAmount ms"
| "firstAmount (Some m # ms) =
     (case group m 1 of
        None \<Rightarrow> firstAmount ms
      | Some g \<Rightarrow>
          if g = [] then firstAmount ms
          else
            (let parsed = parseFloat (removeCommas g);
                 amount = (if includes_char (m_text m) CHR ''('' \<and> includes_char (m_text m) CHR '')''
                           then num_neg (num_abs parsed) else parsed)
             in if \<not> isNaN amount \<and> \<not> num_eq amount (Fin 0) then Some amount
                else firstAmount ms))"

fun scanLines :: "rx \<Rightarrow> string list \<Rightarrow> jsnum option" where
  "scanLines pattern [] = None"
| "scanLines pattern (line # lines) =
     (if rx_test pattern line then
        (case firstAmount (map (\<lambda>p. rx_exec p line) lineNumberPatterns) of
           Some amount \<Rightarrow> Some amount
         | None \<Rightarrow> scanLines pattern lines)
      else scanLines pattern lines)"

text \<open>\<open>(?:GH..)?\s*(number)\<close> after a label, and \<open>\((number)\)\<close> after a label.\<close>

definition plainFigure :: rx where
  "plainFigure = Seqs [Opt cedisGH, spaces0, Grp 1 groupedNumber]"

definition bracketFigure :: rx where
  "bracketFigure = Seqs [Chr (Lit CHR ''(''), Grp 1 groupedNumber, Chr (Lit CHR '')'')]"

definition revenuePatterns :: "rx list" where
  "revenuePatterns =
     [Seqs [litI ''Revenue'', spaces1, plainFigure],
      Seqs [litI ''Sales'', spaces1, plainFigure],
      Seqs [litI ''Turnover'', spaces1, plainFigure]]"

text \<open>
  Each profit pattern with the answer to \<open>profitPattern.source.includes('\\(')\<close>: the
  first and the third have an escaped parenthesis in their text, the second has none.
\<close>

definition profitPatterns :: "(rx \<times> bool) list" where
  "profitPatterns =
     [(Seqs [litI ''Profit'', spaces1, litI ''before'', spaces1, litI ''tax'', spaces1,
             bracketFigure], True),
      (Seqs [litI ''Profit'', spaces1, litI ''before'', spaces1, litI ''tax'', spaces1,
             plainFigure], False),
      (Seqs [litI ''Profit'', anything, litI ''before'', anything, litI ''tax'', anything,
             bracketFigure], True)]"

definition expensePatterns :: "rx list" where
  "expensePatterns =
     [Seqs [litI ''General'', spaces0, Opt (Chr (Lit CHR ''&'')), spaces0,
            Alt (Seqs [litI ''admi'', Opt (Chr (LitI CHR ''n'')), Opt (Chr (Lit CHR ''.''))])
                (litI ''administrative''),
            spaces0, optS ''expense'', spaces1, bracketFigure],
      Seqs [litI ''Operating'', spaces1, optS ''expense'', spaces1, plainFigure],
      Seqs [litI ''Total'', spaces1, plainFigure]]"

definition deductionPatterns :: "rx list" where
  "deductionPatterns =
     [Seqs [litI ''Capital'', spaces1, optS ''allowance'', spaces1, bracketFigure],
      Seqs [litI ''Capital'', spaces1, optS ''allowance'', spaces1, plainFigure],
      Seqs [litI ''Depreciation'', spaces1, plainFigure]]"

text \<open>The first pattern of a list that matches the whole text, with its match.\<close>

fun firstMatch :: "(rx \<times> bool) list \<Rightarrow> string \<Rightarrow> (rmatch \<times> bool) option" where
  "firstMatch [] text = None"
| "firstMatch ((p, b) # ps) text =
     (case rx_exec p text of Some m \<Rightarrow> Some (m, b) | None \<Rightarrow> firstMatch ps text)"

definition figureOf :: "rmatch \<Rightarrow> jsnum" where
  "figureOf m = parseFloat (removeCommas (case group m 1 of Some g \<Rightarrow> g | None \<Rightarrow> []))"

definition specificSearch :: "bool \<Rightarrow> (rx \<times> bool) list \<Rightarrow> string \<Rightarrow> jsnum option" where
  "specificSearch applies ps text =
     (if applies then
        (case firstMatch ps text of
           Some (m, negative) \<Rightarrow> Some (if negative then num_neg (figureOf m) else figureOf m)
         | None \<Rightarrow> None)
      else None)"

definition extractAmountFromText :: "string \<Rightarrow> textPattern \<Rightarrow> jsnum" where
  "extractAmountFromText text pattern =
     (case scanLines (tp_rx pattern) (split_on CHR 0x0A text) of
        Some amount \<Rightarrow> amount
      | None \<Rightarrow>
     (case specificSearch (includes_str (tp_source pattern) ''revenue'')
             (map (\<lambda>p. (p, False)) revenuePatterns) text of
        Some amount \<Rightarrow> amount
      | None \<Rightarrow>
     (case specificSearch (includes_str (tp_source pattern) ''profit.*before.*tax'')
             profitPatterns text of
        Some amount \<Rightarrow> amount
      | None \<Rightarrow>
     (case specificSearch (includes_str (tp_source pattern) ''expenses'')
             (map (\<lambda>p. (p, False)) expensePatterns) text of
        Some amount \<Rightarrow> amount
      | None \<Rightarrow>
     (case specificSearch (includes_str (tp_source pattern) ''capital.*allowances?|deductions?'')
             (map (\<lambda>p. (p, False)) deductionPatterns) text of
        Some amount \<Rightarrow> amount
      | None \<Rightarrow> Fin 0)))))"

section \<open>Recovering an object from model output\<close>

text \<open>The patterns of \<open>cleanJSONString\<close> and of the rescue stage, with their templates.\<close>

definition backticks :: rx where
  "backticks = Seqs [Chr (Lit (CHR 0x60)), Chr (Lit (CHR 0x60)), Chr (Lit (CHR 0x60))]"

definition rx_fence :: rx where
  "rx_fence = Alt (Seqs [backticks, Opt (lit ''json''), spaces0]) (Seq spaces0 backticks)"

definition rx_lineComment :: rx where
  "rx_lineComment = Seq (lit ''//'') (Star (Chr (NoneOf [Lit (CHR 0x0A)])))"

definition rx_blockComment :: rx where
  "rx_blockComment =
     Seqs [lit ''/*'', LazyStar (Chr (OneOf [Space, NoneOf [Space]])), lit ''*/'']"

definition closer :: rx where
  "closer = Chr (OneOf [Lit CHR ''}'', Lit CHR '']''])"

definition rx_trailingComma :: rx where
  "rx_trailingComma = Seq (Chr (Lit CHR '','')) (Grp 1 (Seq spaces0 closer))"

definition quoteMark :: rx where
  "quoteMark = Chr (OneOf [Lit (CHR 0x27), Lit (CHR 0x22)])"

definition rx_propertyName :: rx where
  "rx_propertyName =
     Seqs [Opt (Grp 1 quoteMark), Grp 2 (Plus (Chr Word)), Opt (Grp 3 quoteMark), spaces0,
           Chr (Lit CHR '':'')]"

definition bareWord :: rx where
  "bareWord =
     Seq (Chr (OneOf [Range CHR ''a'' CHR ''z'', Range CHR ''A'' CHR ''Z''])) (Star (Chr Word))"

definition rx_bareValue :: rx where
  "rx_bareValue =
     Seqs [Chr (Lit CHR '':''), spaces0, Grp 1 bareWord, spaces0,
           Grp 2 (Chr (OneOf [Lit CHR '','', Lit CHR ''}'']))]"

definition rx_nonPrintable :: rx where
  "rx_nonPrintable = Chr (NoneOf [Range (CHR 0x20) (CHR 0x7E)])"

definition rx_trailingComma2 :: rx where
  "rx_trailingComma2 = Seqs [Chr (Lit CHR '',''), spaces0, Grp 1 closer]"

definition rx_unquotedKey :: rx where
  "rx_unquotedKey = Seq (Grp 1 (Plus (Chr Word))) (Chr (Lit CHR '':''))"

definition rx_singleQuoted :: rx where
  "rx_singleQuoted =
     Seqs [Chr (Lit CHR '':''), spaces0, Chr (Lit (CHR 0x27)),
           Grp 1 (LazyStar (Chr (NoneOf [Lit (CHR 0x27)]))), Chr (Lit (CHR 0x27)), spaces0,
           Grp 2 (Chr (OneOf [Lit CHR '','', Lit CHR ''}'']))]"

definition rx_embeddedObject :: rx where
  "rx_embeddedObject =
     Seqs [Chr (Lit CHR ''{''), Star (Chr (OneOf [Space, NoneOf [Space]])), Chr (Lit CHR ''}'')]"

definition quotedRef :: "nat \<Rightarrow> piece list" where
  "quotedRef n = [Text [CHR 0x22], Ref n, Text [CHR 0x22]]"

text \<open>\<open>s.indexOf(c)\<close> and \<open>s.lastIndexOf(c)\<close>; \<open>None\<close> is the result \<open>-1\<close>.\<close>

definition indexOf :: "string \<Rightarrow> char \<Rightarrow> nat option" where
  "indexOf s c = findIndex (\<lambda>x. x = c) s"

definition lastIndexOf :: "string \<Rightarrow> char \<Rightarrow> nat option" where
  "lastIndexOf s c =
     (case findIndex (\<lambda>x. x = c) (rev s) of None \<Rightarrow> None | Some k \<Rightarrow> Some (length s - 1 - k))"

text \<open>
  \<open>cleanJSONString\<close> reassigns \<open>cleaned\<close> step by step; each step is a function here
  and the whole is their composition.  \<open>None\<close> is the error \<open>Invalid JSON structure\<close>.
\<close>

definition fromFirstBrace :: "string \<Rightarrow> string" where
  "fromFirstBrace s = (case indexOf s CHR ''{'' of Some (Suc k) \<Rightarrow> drop (Suc k) s | _ \<Rightarrow> s)"

definition toLastBrace :: "string \<Rightarrow> string" where
  "toLastBrace s =
     (case lastIndexOf s CHR ''}'' of
        Some k \<Rightarrow> if k < length s - 1 then take (k + 1) s else s
      | None \<Rightarrow> s)"

definition checkStructure :: "string \<Rightarrow> string option" where
  "checkStructure cleaned =
     (if cleaned \<noteq> [] \<and> hd cleaned = CHR ''{'' \<and> last cleaned = CHR ''}'' then Some cleaned
      else None)"

definition cleanJSONString :: "string \<Rightarrow> string option" where
  "cleanJSONString content =
     checkStructure
       (trim
         (replace_all spaces1 [Text '' '']
           (replace_all rx_bareValue (Text '':'' # quotedRef 1 @ [Ref 2])
             (replace_all rx_propertyName (quotedRef 2 @ [Text '':''])
               (replace_all rx_trailingComma [Ref 1]
                 (replace_all rx_blockComment []
                   (replace_all rx_lineComment []
                     (replace_all rx_fence []
                       (toLastBrace (fromFirstBrace (trim content)))))))))))"

text \<open>The text the rescue stage hands to the parser.\<close>

definition embeddedObject :: "string \<Rightarrow> string" where
  "embeddedObject rescued =
     (case rx_exec rx_embeddedObject rescued of Some m \<Rightarrow> m_text m | None \<Rightarrow> rescued)"

definition rescueJSONString :: "string \<Rightarrow> string" where
  "rescueJSONString content =
     embeddedObject
       (replace_all rx_bareValue (Text '':'' # quotedRef 1 @ [Ref 2])
         (replace_all rx_singleQuoted (Text '':'' # quotedRef 1 @ [Ref 2])
           (replace_all rx_unquotedKey (quotedRef 1 @ [Text '':''])
             (replace_all rx_trailingComma2 [Ref 1]
               (replace_all spaces1 [Text '' '']
                 (replace_all rx_nonPrintable [] content))))))"

text \<open>
  \<open>safeJSONParse\<close>.  The result is the parsed value, or \<open>None\<close> for the error thrown
  after the last attempt; with it comes the list of the stages that were entered, in
  the order they were.
\<close>

datatype stage = DirectParse | CleanedParse | RescueParse

definition safeJSONParse :: "string \<Rightarrow> jsval option \<times> stage list" where
  "safeJSONParse content =
     (case JSON_parse content of
        Some v \<Rightarrow> (Some v, [DirectParse])
      | None \<Rightarrow>
          (case (case cleanJSONString content of
                   None \<Rightarrow> None
                 | Some cleaned \<Rightarrow> JSON_parse cleaned) of
             Some v \<Rightarrow> (Some v, [DirectParse, CleanedParse])
           | None \<Rightarrow>
               (case JSON_parse (rescueJSONString content) of
                  Some v \<Rightarrow> (Some v, [DirectParse, CleanedParse, RescueParse])
                | None \<Rightarrow> (None, [DirectParse, CleanedParse, RescueParse]))))"

section \<open>The shapes of a parsed response\<close>

text \<open>
  \<open>String(v)\<close>, as \<open>RegExp.prototype.test\<close> applies it to its argument.  The text of a
  finite number is made of digits, a sign, a point and an exponent mark, which is all the
  patterns applied to it here can see of it; it is given as \<open>0\<close>.
\<close>

fun ToString :: "jsval \<Rightarrow> string" where
  "ToString JUndefined = ''undefined''"
| "ToString JNull = ''null''"
| "ToString (JBool b) = (if b then ''true'' else ''false'')"
| "ToString (JNum n) =
     (case n of NaN \<Rightarrow> ''NaN'' | PInf \<Rightarrow> ''Infinity'' | NInf \<Rightarrow> ''-Infinity'' | Fin _ \<Rightarrow> ''0'')"
| "ToString (JStr s) = s"
| "ToString (JObj _) = ''[object Object]''"
| "ToString (JArr xs) =
     join_with CHR '',''
       (map (\<lambda>x. case x of JUndefined \<Rightarrow> [] | JNull \<Rightarrow> [] | _ \<Rightarrow> ToString x) xs)"

definition simplifiedKeys :: "string list" where
  "simplifiedKeys = [''Revenue'', ''ProfitBeforeTax'', ''Expenses'', ''Income'', ''Sales'', ''Turnover'']"

text \<open>\<open>Object.keys\<close> of an object or an array.\<close>

fun objectKeys :: "jsval \<Rightarrow> string list" where
  "objectKeys (JObj ps) = map fst ps"
| "objectKeys _ = []"

definition isSimplifiedResponse :: "jsval \<Rightarrow> bool" where
  "isSimplifiedResponse data =
     (list_ex (\<lambda>key. key \<in> set simplifiedKeys) (objectKeys data)
      \<and> has_prop ''taxpayerName'' data = Some False
      \<and> has_prop ''Balance_Sheet'' data = Some False
      \<and> has_prop ''Profit_and_Loss'' data = Some False)"

text \<open>
  \<open>parseSimplifiedResponse\<close>.  The record it builds from the four figures, once they
  are known, is \<open>simplifiedRecord\<close>.
\<close>

definition simplifiedRecord ::
  "string \<times> string \<Rightarrow> jsnum \<Rightarrow> jsval \<Rightarrow> jsval \<Rightarrow> jsval \<Rightarrow> jsval \<Rightarrow> ExtractedTaxData" where
  "simplifiedRecord details year revenue expenses profitBeforeTax deductions =
     \<lparr> taxpayerName = JStr (fst details),
       taxYear = JNum year,
       totalIncome = revenue,
       totalExpenses = expenses,
       totalDeductions = deductions,
       taxableAmount =
         js_or profitBeforeTax
           (JNum (num_sub (num_sub (ToNumber revenue) (ToNumber expenses)) (ToNumber deductions))),
       taxId = JStr ''Not provided'',
       businessType = JStr (snd details) \<rparr>"

definition parseSimplifiedResponse :: "int \<Rightarrow> jsval \<Rightarrow> string \<Rightarrow> ExtractedTaxData" where
  "parseSimplifiedResponse currentYear data originalDocumentText =
     fst (applySoftConstraints
       (simplifiedRecord
          (extractCompanyDetails originalDocumentText)
          (extractTaxYear currentYear originalDocumentText)
          (js_or (getProp data ''Revenue'') (js_or (getProp data ''Income'')
             (js_or (getProp data ''Sales'') (js_or (getProp data ''Turnover'')
               (JNum (extractAmountFromText originalDocumentText pat_revenue))))))
          (js_or (getProp data ''Expenses'') (js_or (getProp data ''TotalExpenses'')
             (JNum (extractAmountFromText originalDocumentText pat_expenses))))
          (js_or (getProp data ''ProfitBeforeTax'') (js_or (getProp data ''Profit_Before_Tax'')
             (JNum (extractAmountFromText originalDocumentText pat_profit))))
          (js_or (getProp data ''Deductions'') (js_or (getProp data ''CapitalAllowances'')
             (JNum (extractAmountFromText originalDocumentText pat_deductions))))))"

text \<open>
  \<open>findFinancialItem\<close>.  \<open>Array.prototype.find\<close> reads \<open>item.Account\<close> of every item
  up to the first match; on a \<open>null\<close> item that read throws a \<open>TypeError\<close>, which is
  the outer \<open>None\<close> here.
\<close>

fun findItem :: "rx \<Rightarrow> jsval list \<Rightarrow> jsval option option" where
  "findItem accountPattern [] = Some None"
| "findItem accountPattern (item # items) =
     (if item = JNull \<or> item = JUndefined then None
      else if rx_test accountPattern (ToString (getProp item ''Account'')) then Some (Some item)
      else findItem accountPattern items)"

fun firstNumeric :: "jsval \<Rightarrow> string list \<Rightarrow> jsnum" where
  "firstNumeric item [] = Fin 0"
| "firstNumeric item (p # ps) =
     (case getProp item p of
        JNum n \<Rightarrow> if \<not> isNaN n then n else firstNumeric item ps
      | _ \<Rightarrow> firstNumeric item ps)"

definition findFinancialItem :: "jsval list \<Rightarrow> rx \<Rightarrow> string list \<Rightarrow> jsnum option" where
  "findFinancialItem items accountPattern propertyNames =
     (case findItem accountPattern items of
        None \<Rightarrow> None
      | Some None \<Rightarrow> Some (Fin 0)
      | Some (Some matchingItem) \<Rightarrow> Some (firstNumeric matchingItem propertyNames))"

definition rx_revenueAccount :: rx where
  "rx_revenueAccount = Alts [litI ''revenue'', litI ''income'', litI ''sales'', litI ''turnover'']"

definition expenseKinds :: rx where
  "expenseKinds = Alts [litI ''general'', litI ''administrative'', litI ''operating'', litI ''total'']"

definition rx_expenseAccount :: rx where
  "rx_expenseAccount =
     Alt (Seqs [expenseKinds, anything, optS ''expense''])
         (Seqs [optS ''expense'', anything, expenseKinds])"

definition rx_profitAccount :: rx where
  "rx_profitAccount =
     Alt (Seqs [litI ''profit'', anything, litI ''before'', anything, litI ''tax''])
         (Seqs [litI ''income'', anything, litI ''before'', anything, litI ''tax''])"

definition rx_deductionAccount :: rx where
  "rx_deductionAccount =
     Alts [Seqs [litI ''capital'', anything, optS ''allowance''], litI ''depreciation'',
           optS ''deduction'', Seqs [litI ''tax'', anything, litI ''relief'']]"

record FinancialData =
  fd_revenue :: jsnum
  fd_expenses :: jsnum
  fd_deductions :: jsnum
  fd_profitBeforeTax :: jsnum

text \<open>
  \<open>extractFinancialData\<close>; the retained earnings it also reads are only logged.  \<open>None\<close>
  is a \<open>TypeError\<close> from one of the four searches.
\<close>

definition extractFinancialData :: "jsval \<Rightarrow> FinancialData option" where
  "extractFinancialData data =
     (let profitAndLoss = (case getProp data ''Profit_and_Loss'' of JArr xs \<Rightarrow> xs | _ \<Rightarrow> [])
      in case findFinancialItem profitAndLoss rx_revenueAccount
                [''Amount'', ''Expenses'', ''Total_Income''] of
           None \<Rightarrow> None
         | Some revenue \<Rightarrow>
        (case findFinancialItem profitAndLoss rx_expenseAccount
                [''Expenses'', ''Amount'', ''Cost'', ''Total_Expenses''] of
           None \<Rightarrow> None
         | Some expenses \<Rightarrow>
        (case findFinancialItem profitAndLoss rx_profitAccount [''Amount''] of
           None \<Rightarrow> None
         | Some profitBeforeTax \<Rightarrow>
        (case findFinancialItem profitAndLoss rx_deductionAccount [''Amount'', ''Expenses''] of
           None \<Rightarrow> None
         | Some deductions \<Rightarrow>
             Some \<lparr> fd_revenue = revenue, fd_expenses = expenses,
                    fd_deductions = deductions, fd_profitBeforeTax = profitBeforeTax \<rparr>))))"

definition parseFinancialStatementFormat ::
  "int \<Rightarrow> jsval \<Rightarrow> string \<Rightarrow> ExtractedTaxData option" where
  "parseFinancialStatementFormat currentYear data originalDocumentText =
     (let (companyName, businessType) = extractCompanyInfo originalDocumentText;
          taxYear = extractYearFromText currentYear originalDocumentText
      in case extractFinancialData data of
           None \<Rightarrow> None
         | Some financialData \<Rightarrow>
             Some (fst (applySoftConstraints
               \<lparr> taxpayerName = JStr companyName,
                 taxYear = JNum taxYear,
                 totalIncome = JNum (fd_revenue financialData),
                 totalExpenses = JNum (fd_expenses financialData),
                 totalDeductions = JNum (fd_deductions financialData),
                 taxableAmount =
                   js_or (JNum (fd_profitBeforeTax financialData))
                     (JNum (num_sub (num_sub (fd_revenue financialData) (fd_expenses financialData))
                                    (fd_deductions financialData))),
                 taxId = JStr ''Not provided'',
                 businessType = JStr businessType \<rparr>)))"

definition numberOrZero :: "jsval \<Rightarrow> jsval" where
  "numberOrZero v = (case v of JNum n \<Rightarrow> JNum n | _ \<Rightarrow> JNum (Fin 0))"

definition processStandardFormat :: "int \<Rightarrow> jsval \<Rightarrow> string \<Rightarrow> ExtractedTaxData" where
  "processStandardFormat currentYear data originalText =
     (let breakdown = getProp data ''detailedBreakdown'';
          zero = JNum (Fin 0)
      in if truthy breakdown then
           fst (applySoftConstraints
             \<lparr> taxpayerName = js_or (getProp data ''taxpayerName'') (JStr ''Not provided''),
               taxYear = js_or (getProp data ''taxYear'') (JNum (Fin (of_int currentYear))),
               totalIncome =
                 js_or (getProp breakdown ''revenue'') (js_or (getProp data ''totalIncome'') zero),
               totalExpenses =
                 js_or (getProp breakdown ''generalAdminExpenses'')
                   (js_or (getProp data ''totalExpenses'') zero),
               totalDeductions =
                 js_or (getProp breakdown ''capitalAllowances'')
                   (js_or (getProp breakdown ''depreciation'')
                     (js_or (getProp data ''totalDeductions'') zero)),
               taxableAmount =
                 js_or (getProp breakdown ''profitBeforeTax'')
                   (js_or (getProp breakdown ''chargeableIncome'')
                     (js_or (getProp data ''taxableAmount'') zero)),
               taxId = js_or (getProp data ''taxId'') (JStr ''Not provided''),
               businessType = js_or (getProp data ''businessType'') (JStr ''Not provided'') \<rparr>)
         else
           fst (applySoftConstraints
             \<lparr> taxpayerName = js_or (getProp data ''taxpayerName'') (JStr ''Not provided''),
               taxYear = js_or (getProp data ''taxYear'') (JNum (Fin (of_int currentYear))),
               totalIncome = numberOrZero (getProp data ''totalIncome''),
               totalExpenses = numberOrZero (getProp data ''totalExpenses''),
               totalDeductions = numberOrZero (getProp data ''totalDeductions''),
               taxableAmount = numberOrZero (getProp data ''taxableAmount''),
               taxId = js_or (getProp data ''taxId'') (JStr ''Not provided''),
               businessType = js_or (getProp data ''businessType'') (JStr ''Not provided'') \<rparr>))"

text \<open>\<open>extractFromRawText\<close>, the text-extraction fallback.\<close>

definition extractFromRawText :: "int \<Rightarrow> string \<Rightarrow> ExtractedTaxData" where
  "extractFromRawText currentYear text =
     (let (companyName, businessType) = extractCompanyInfo text;
          taxYear = extractYearFromText currentYear text;
          amounts = extractTaxAmounts text
      in \<lparr> taxpayerName = JStr companyName,
           taxYear = JNum taxYear,
           totalIncome = JNum (ta_totalIncome amounts),
           totalExpenses = JNum (ta_totalExpenses amounts),
           totalDeductions = JNum (ta_totalDeductions amounts),
           taxableAmount = JNum (ta_taxableAmount amounts),
           taxId = JStr ''Not provided'',
           businessType = JStr businessType \<rparr>)"

text \<open>
  \<open>parseAIResponse(content, originalDocumentText)\<close>.  The second argument is optional;
  \<open>originalDocumentText || content\<close> is the document unless it is absent or empty.  A
  \<open>TypeError\<close> of the \<open>in\<close> operator on a primitive, or of a search over a
  \<open>null\<close> line item, is caught by the outer \<open>try\<close>, which falls back to the text.
\<close>

definition textOr :: "string option \<Rightarrow> string \<Rightarrow> string" where
  "textOr originalDocumentText content =
     (case originalDocumentText of
        None \<Rightarrow> content
      | Some d \<Rightarrow> if d = [] then content else d)"

definition parseAIResponse :: "int \<Rightarrow> string \<Rightarrow> string option \<Rightarrow> ExtractedTaxData" where
  "parseAIResponse currentYear content originalDocumentText =
     (let text = textOr originalDocumentText content
      in case fst (safeJSONParse content) of
           None \<Rightarrow> extractFromRawText currentYear text
         | Some extractedData \<Rightarrow>
             if \<not> truthy extractedData then extractFromRawText currentYear text
             else
               (case has_prop ''validationData'' extractedData of
                  None \<Rightarrow> extractFromRawText currentYear text
                | Some True \<Rightarrow> fst (validateExtractedData extractedData)
                | Some False \<Rightarrow>
                    if has_prop ''Balance_Sheet'' extractedData = Some True
                       \<or> has_prop ''Profit_and_Loss'' extractedData = Some True
                    then (case parseFinancialStatementFormat currentYear extractedData text of
                            Some r \<Rightarrow> r
                          | None \<Rightarrow> extractFromRawText currentYear text)
                    else if isSimplifiedResponse extractedData
                    then parseSimplifiedResponse currentYear extractedData text
                    else processStandardFormat currentYear extractedData text))"

section \<open>Providers and the orchestration\<close>

text \<open>
  The three backends are outside the program.  A client is absent (\<open>None\<close>) or a function
  from the prompt to what the call gives back, an error when the call throws.  The
  prompt is the fixed template with the document text and the caller's context filled
  in, so it is represented by those two.  The year the defaults use is the current year
  of the clock.
\<close>

datatype error = Error string

datatype prompt = ExtractionPrompt string string

datatype block = TextBlock string | OtherBlock

record RAGExtractor =
  availableProviders :: "string list"
  preferredProvider :: string
  llm :: "(prompt \<Rightarrow> error + string) option"
  openai :: "(prompt \<Rightarrow> error + string option) option"
  claude :: "(prompt \<Rightarrow> error + block list) option"
  currentYear :: int

definition buildExtractionPrompt :: "string \<Rightarrow> string \<Rightarrow> prompt" where
  "buildExtractionPrompt documentText context = ExtractionPrompt documentText context"

definition getProvidersToTry :: "RAGExtractor \<Rightarrow> string list" where
  "getProvidersToTry this =
     (if preferredProvider this \<in> set (availableProviders this)
      then preferredProvider this
             # filter (\<lambda>p. p \<noteq> preferredProvider this) (availableProviders this)
      else availableProviders this)"

definition isAIEnabled :: "RAGExtractor \<Rightarrow> bool" where
  "isAIEnabled this = (0 < length (availableProviders this))"

definition extractWithOllama :: "RAGExtractor \<Rightarrow> prompt \<Rightarrow> string \<Rightarrow> error + ExtractedTaxData" where
  "extractWithOllama this p originalDocumentText =
     (case llm this of
        None \<Rightarrow> Inl (Error ''Ollama not initialized'')
      | Some invoke \<Rightarrow>
          (case invoke p of
             Inl e \<Rightarrow> Inl e
           | Inr response \<Rightarrow>
               Inr (parseAIResponse (currentYear this) response (Some originalDocumentText))))"

definition extractWithOpenAI :: "RAGExtractor \<Rightarrow> prompt \<Rightarrow> string \<Rightarrow> error + ExtractedTaxData" where
  "extractWithOpenAI this p originalDocumentText =
     (case openai this of
        None \<Rightarrow> Inl (Error ''OpenAI not initialized'')
      | Some create \<Rightarrow>
          (case create p of
             Inl e \<Rightarrow> Inl e
           | Inr content \<Rightarrow>
               Inr (parseAIResponse (currentYear this)
                      (case content of None \<Rightarrow> [] | Some c \<Rightarrow> c)
                      (Some originalDocumentText))))"

definition extractWithClaude :: "RAGExtractor \<Rightarrow> prompt \<Rightarrow> string \<Rightarrow> error + ExtractedTaxData" where
  "extractWithClaude this p originalDocumentText =
     (case claude this of
        None \<Rightarrow> Inl (Error ''Claude not initialized'')
      | Some create \<Rightarrow>
          (case create p of
             Inl e \<Rightarrow> Inl e
           | Inr blocks \<Rightarrow>
               if blocks = [] then Inl (Error ''Empty response from Claude'')
               else
                 (let content = concat (map (\<lambda>b. case b of TextBlock t \<Rightarrow> t | OtherBlock \<Rightarrow> []) blocks)
                  in if content = [] then Inl (Error ''No text content in Claude response'')
                     else Inr (parseAIResponse (currentYear this) content
                                 (Some originalDocumentText)))))"

definition extractWithProvider ::
  "RAGExtractor \<Rightarrow> string \<Rightarrow> string \<Rightarrow> string \<Rightarrow> error + ExtractedTaxData" where
  "extractWithProvider this provider documentText context =
     (let p = buildExtractionPrompt documentText context
      in if provider = ''ollama'' then extractWithOllama this p documentText
         else if provider = ''openai'' then extractWithOpenAI this p documentText
         else if provider = ''claude'' then extractWithClaude this p documentText
         else Inl (Error ''Unknown provider''))"

text \<open>
  The loop over the candidates: the record returned, and the providers whose extraction
  was attempted, in order.  Storing the document in the vector store comes before the
  loop, inside a \<open>try\<close> of its own, and has no part in the result.
\<close>

fun tryProviders ::
  "RAGExtractor \<Rightarrow> string \<Rightarrow> string \<Rightarrow> string list \<Rightarrow> ExtractedTaxData \<times> string list" where
  "tryProviders this documentText context [] = (getDefaultTaxData (currentYear this), [])"
| "tryProviders this documentText context (provider # rest) =
     (case extractWithProvider this provider documentText context of
        Inr result \<Rightarrow> (result, [provider])
      | Inl e \<Rightarrow>
          (let (r, tried) = tryProviders this documentText context rest
           in (r, provider # tried)))"

definition extractTaxData ::
  "RAGExtractor \<Rightarrow> string \<Rightarrow> string \<Rightarrow> ExtractedTaxData \<times> string list" where
  "extractTaxData this documentText context =
     (if length (availableProviders this) = 0 then (getDefaultTaxData (currentYear this), [])
      else tryProviders this documentText context (getProvidersToTry this))"

section \<open>The specification's wording of two algorithms\<close>

text \<open>
  The recovery cascade as the specification words it: the stages are tried in a fixed
  order, a stage is entered only when every stage before it failed, and the first stage
  to succeed gives the result.
\<close>

fun firstSuccess :: "(stage \<times> jsval option) list \<Rightarrow> jsval option \<times> stage list" where
  "firstSuccess [] = (None, [])"
| "firstSuccess ((s, Some v) # rest) = (Some v, [s])"
| "firstSuccess ((s, None) # rest) = (fst (firstSuccess rest), s # snd (firstSuccess rest))"

definition cleanedAttempt :: "string \<Rightarrow> jsval option" where
  "cleanedAttempt content =
     (case cleanJSONString content of None \<Rightarrow> None | Some cleaned \<Rightarrow> JSON_parse cleaned)"

definition stagedParse :: "string \<Rightarrow> jsval option \<times> stage list" where
  "stagedParse content =
     firstSuccess [(DirectParse, JSON_parse content),
                   (CleanedParse, cleanedAttempt content),
                   (RescueParse, JSON_parse (rescueJSONString content))]"

text \<open>
  The amount of a line item as the specification words it: of the first item whose
  account label matches, the first of the listed value fields that holds a number;
  \<open>0\<close> when no item matches or none of the fields holds one.
\<close>

definition isNumeric :: "jsval \<Rightarrow> bool" where
  "isNumeric v = (case v of JNum n \<Rightarrow> n \<noteq> NaN | _ \<Rightarrow> False)"

definition firstPresentNumeric :: "jsval \<Rightarrow> string list \<Rightarrow> jsnum" where
  "firstPresentNumeric item names =
     (case filter isNumeric (map (getProp item) names) of
        JNum n # _ \<Rightarrow> n
      | _ \<Rightarrow> Fin 0)"

definition accountMatches :: "rx \<Rightarrow> jsval \<Rightarrow> bool" where
  "accountMatches accountPattern item = rx_test accountPattern (ToString (getProp item ''Account''))"

definition matchedAmount :: "jsval list \<Rightarrow> rx \<Rightarrow> string list \<Rightarrow> jsnum" where
  "matchedAmount items accountPattern names =
     (case List.find (accountMatches accountPattern) items of
        None \<Rightarrow> Fin 0
      | Some item \<Rightarrow> firstPresentNumeric item names)"

text \<open>The line items of a parsed response, as \<open>extractFinancialData\<close> reads them.\<close>

definition lineItems :: "jsval \<Rightarrow> jsval list" where
  "lineItems data = (case getProp data ''Profit_and_Loss'' of JArr xs \<Rightarrow> xs | _ \<Rightarrow> [])"

text \<open>An object without the property \<open>k\<close>.\<close>

fun removeKey :: "string \<Rightarrow> jsval \<Rightarrow> jsval" where
  "removeKey k (JObj ps) = JObj (filter (\<lambda>p. fst p \<noteq> k) ps)"
| "removeKey k v = v"

section \<open>Auxiliary notions for the proofs\<close>

text \<open>
  The record after the numeric-field loop, and the expenses, the residual and the
  taxable amount that \<open>applySoftConstraints\<close> computes from it.
\<close>

definition cleaned :: "ExtractedTaxData \<Rightarrow> ExtractedTaxData" where
  "cleaned d = d\<lparr> totalIncome := JNum (validateNumericValue (totalIncome d)),
                 totalExpenses := JNum (validateNumericValue (totalExpenses d)),
                 totalDeductions := JNum (validateNumericValue (totalDeductions d)),
                 taxableAmount := JNum (validateNumericValue (taxableAmount d)) \<rparr>"

definition softE :: "ExtractedTaxData \<Rightarrow> jsnum" where
  "softE r = validateExpensesRatio (validateNumericValue (totalExpenses r))
                                   (validateNumericValue (totalIncome r))"

definition softCalc :: "ExtractedTaxData \<Rightarrow> jsnum" where
  "softCalc r = num_sub (num_sub (validateNumericValue (totalIncome r)) (softE r))
                        (validateNumericValue (totalDeductions r))"

definition softT :: "ExtractedTaxData \<Rightarrow> jsnum" where
  "softT r = fst (validateTaxableAmount (validateNumericValue (taxableAmount r)) (softCalc r)
                    (validateNumericValue (totalIncome r)))"

text \<open>Concrete inputs on which the theorems below are evaluated.\<close>

definition capExample :: ExtractedTaxData where
  "capExample =
     \<lparr> taxpayerName = JUndefined, taxYear = JUndefined,
       totalIncome = JNum (Fin 1000), totalExpenses = JNum (Fin 10000),
       totalDeductions = JUndefined, taxableAmount = JUndefined,
       taxId = JUndefined, businessType = JUndefined \<rparr>"




definition enhancedInput :: string where
  "enhancedInput = ''{\"validationData\":{}}''"

definition expensesItem :: jsval where
  "expensesItem =
     JObj [(''Account'', JStr ''Operating expenses''), (''Amount'', JNum (Fin 1)),
           (''Expenses'', JNum (Fin 2))]"

definition salesItem :: jsval where
  "salesItem = JObj [(''Account'', JStr ''Sales''), (''Cost'', JNum (Fin 7))]"

definition orderExample :: jsval where
  "orderExample = JObj [(''Profit_and_Loss'', JArr [expensesItem, salesItem])]"

definition statementExample :: jsval where
  "statementExample =
     JObj [(''Profit_and_Loss'',
            JArr [JObj [(''Account'', JStr ''Revenue''), (''Amount'', JNum (Fin 13247))],
                  JObj [(''Account'', JStr ''General & admin expenses''),
                        (''Expenses'', JNum (Fin 14927))]])]"

definition simplifiedExample :: jsval where
  "simplifiedExample = JObj [(''Revenue'', JNum (Fin 0)), (''Expenses'', JNum (Fin 100))]"

definition fallbackExtractor :: RAGExtractor where
  "fallbackExtractor =
     \<lparr> availableProviders = [''ollama'', ''openai'', ''claude''],
       preferredProvider = ''openai'',
       llm = Some (\<lambda>p. Inr ''{}''),
       openai = Some (\<lambda>p. Inl (Error ''request failed'')),
       claude = Some (\<lambda>p. Inr [TextBlock ''{}'']),
       currentYear = 2026 \<rparr>"

definition deadExtractor :: RAGExtractor where
  "deadExtractor =
     \<lparr> availableProviders = [''ollama'', ''claude''],
       preferredProvider = ''openai'',
       llm = Some (\<lambda>p. Inl (Error ''connection refused'')),
       openai = None,
       claude = Some (\<lambda>p. Inr []),
       currentYear = 2026 \<rparr>"

section \<open>Properties of the soft constraints\<close>

lemma strict_neq_JNum_False:
  "\<not> strict_neq (JNum n) x \<Longrightarrow> x = JNum n"
  by (cases x) (auto simp: num_eq_def)

lemma validateNumericValue_Fin: "\<exists>q. validateNumericValue x = Fin q"
  by (cases x) (auto simp: validateNumericValue_def isNaN_def isFinite_def split: jsnum.splits)

lemma validateNumericValue_idem [simp]:
  "validateNumericValue (JNum (validateNumericValue x)) = validateNumericValue x"
  using validateNumericValue_Fin [of x]
  by (auto simp: validateNumericValue_def isNaN_def isFinite_def)

lemma fst_validateFields:
  "fst (validateFields numericFields (d, w)) = cleaned d"
  by (auto simp: numericFields_def getField_def setField_def Let_def cleaned_def
      dest!: strict_neq_JNum_False)

lemma DBL_LIMIT_pos: "0 < DBL_LIMIT"
  by (simp add: DBL_LIMIT_def)

lemma DBL_LIMIT_gt: "1000 < DBL_LIMIT"
  by (simp add: DBL_LIMIT_def)

lemma validateNumericValue_Fin_eq [simp]: "validateNumericValue (JNum (Fin q)) = Fin q"
  by (simp add: validateNumericValue_def isNaN_def isFinite_def)

lemma validateNumericValue_Inf [simp]:
  "validateNumericValue (JNum PInf) = Fin 0" "validateNumericValue (JNum NInf) = Fin 0"
  by (simp_all add: validateNumericValue_def isNaN_def isFinite_def)

lemma dbl_zero [simp]: "dbl 0 = Fin 0"
  using DBL_LIMIT_pos by (simp add: dbl_def)


lemma validateTaxableAmount_None:
  "validateTaxableAmount t c i = (v, None) \<Longrightarrow> v = t"
  by (auto simp: validateTaxableAmount_def Let_def split: if_splits)

lemma fst_applySoftConstraints:
  "fst (applySoftConstraints r) =
     (cleaned r)\<lparr>totalExpenses := JNum (softE r), taxableAmount := JNum (softT r)\<rparr>"
proof -
  obtain c1 w1 where v: "validateFields numericFields (r, []) = (c1, w1)"
    by (cases "validateFields numericFields (r, [])")
  have c1: "c1 = cleaned r" using fst_validateFields [of r "[]"] v by simp
  define E where "E = validateExpensesRatio (ToNumber (totalExpenses c1)) (ToNumber (totalIncome c1))"
  have E: "E = softE r" by (simp add: c1 cleaned_def softE_def E_def)
  define c2 where
    "c2 = (if strict_neq (JNum E) (totalExpenses c1) then c1\<lparr>totalExpenses := JNum E\<rparr> else c1)"
  have c2: "c2 = (cleaned r)\<lparr>totalExpenses := JNum (softE r)\<rparr>"
  proof (cases "strict_neq (JNum E) (totalExpenses c1)")
    case True
    then show ?thesis by (simp add: c2_def c1 E)
  next
    case False
    then have "totalExpenses c1 = JNum E" by (rule strict_neq_JNum_False)
    then have "c1 = c1\<lparr>totalExpenses := JNum E\<rparr>" by simp
    with False show ?thesis by (simp add: c2_def c1 E)
  qed
  define calc where
    "calc = num_sub (num_sub (ToNumber (totalIncome c2)) (ToNumber (totalExpenses c2)))
                    (ToNumber (totalDeductions c2))"
  have calc: "calc = softCalc r" by (simp add: calc_def c2 cleaned_def softCalc_def)
  obtain vt tw where vt:
    "validateTaxableAmount (ToNumber (taxableAmount c2)) calc (ToNumber (totalIncome c2)) = (vt, tw)"
    by (cases "validateTaxableAmount (ToNumber (taxableAmount c2)) calc (ToNumber (totalIncome c2))")
  have vt_eq: "vt = softT r"
    using vt by (simp add: softT_def calc c2 cleaned_def)
  have res: "fst (applySoftConstraints r) =
      (case tw of Some w \<Rightarrow> c2\<lparr>taxableAmount := JNum vt\<rparr> | None \<Rightarrow> c2)"
  proof (cases "strict_neq (JNum E) (totalExpenses c1)")
    case True
    then have c2': "c2 = c1\<lparr>totalExpenses := JNum E\<rparr>" by (simp add: c2_def)
    show ?thesis
      unfolding applySoftConstraints_def v
      using True vt [unfolded calc_def c2']
      by (simp add: Let_def E_def [symmetric] c2' split: option.splits)
  next
    case False
    then have c2': "c2 = c1" by (simp add: c2_def)
    show ?thesis
      unfolding applySoftConstraints_def v
      using False vt [unfolded calc_def c2']
      by (simp add: Let_def E_def [symmetric] c2' split: option.splits)
  qed
  show ?thesis
  proof (cases tw)
    case None
    with vt have "vt = ToNumber (taxableAmount c2)" by (auto dest: validateTaxableAmount_None)
    then have "taxableAmount c2 = JNum vt" by (simp add: c2 cleaned_def)
    then have "c2 = c2\<lparr>taxableAmount := JNum vt\<rparr>" by simp
    with None res show ?thesis by (simp add: c2 vt_eq)
  next
    case (Some w)
    with res show ?thesis by (simp add: c2 vt_eq)
  qed
qed

lemma validateExpensesRatio_Fin:
  "\<exists>e'. validateExpensesRatio (Fin e) (Fin i) = Fin e' \<and> validateExpensesRatio (Fin e') (Fin i) = Fin e'"
  using DBL_LIMIT_pos
  by (auto simp: validateExpensesRatio_def MAX_EXPENSE_RATIO_def num_gt_def Math_min_def dbl_def)

lemma sub_not_NaN: "num_sub (num_sub (Fin a) (Fin b)) (Fin c) \<noteq> NaN"
  by (auto simp: num_sub_def dbl_def)

lemma validateTaxableAmount_cases:
  "fst (validateTaxableAmount t c i) = t \<or> (fst (validateTaxableAmount t c i) = c \<and> t = Fin 0)"
  by (simp add: validateTaxableAmount_def Let_def num_eq_def)

lemma significant_not_below_zero:
  "\<not> num_gt (Fin 0) (Math_max (Fin 1000) (num_mul (Fin i) (Fin (1 / 10))))"
proof -
  have "dbl (i * (1 / 10)) = PInf \<or> dbl (i * (1 / 10)) = NInf \<or> dbl (i * (1 / 10)) = Fin (i * (1 / 10))"
    by (simp add: dbl_def)
  then show ?thesis
    by (auto simp: num_gt_def Math_max_def)
qed

lemma validateTaxableAmount_same:
  "fst (validateTaxableAmount (Fin q) (Fin q) (Fin i)) = Fin q"
  using significant_not_below_zero [of i]
  by (simp add: validateTaxableAmount_def Let_def num_sub_def)

lemma validateTaxableAmount_stable:
  assumes "c \<noteq> NaN"
  shows "fst (validateTaxableAmount
           (validateNumericValue (JNum (fst (validateTaxableAmount (Fin t) c (Fin i))))) c (Fin i))
         = fst (validateTaxableAmount (Fin t) c (Fin i))"
proof -
  consider (same) "fst (validateTaxableAmount (Fin t) c (Fin i)) = Fin t"
    | (fixed) "fst (validateTaxableAmount (Fin t) c (Fin i)) = c" "t = 0"
    using validateTaxableAmount_cases [of "Fin t" c "Fin i"] by auto
  then show ?thesis
  proof cases
    case same
    then show ?thesis by simp
  next
    case fixed
    show ?thesis
    proof (cases c)
      case (Fin q)
      with fixed show ?thesis by (simp add: validateTaxableAmount_same)
    next
      case PInf
      with fixed show ?thesis by simp
    next
      case NInf
      with fixed show ?thesis by simp
    next
      case NaN
      with assms show ?thesis by simp
    qed
  qed
qed
lemma applySoftConstraints_idem:
  "fst (applySoftConstraints (fst (applySoftConstraints r))) = fst (applySoftConstraints r)"
proof -
  obtain i e d t where
    i: "validateNumericValue (totalIncome r) = Fin i" and
    e: "validateNumericValue (totalExpenses r) = Fin e" and
    d: "validateNumericValue (totalDeductions r) = Fin d" and
    t: "validateNumericValue (taxableAmount r) = Fin t"
    using validateNumericValue_Fin by metis
  obtain e' where e': "validateExpensesRatio (Fin e) (Fin i) = Fin e'"
     "validateExpensesRatio (Fin e') (Fin i) = Fin e'"
    using validateExpensesRatio_Fin by blast
  let ?r1 = "fst (applySoftConstraints r)"
  have E1: "softE r = Fin e'" by (simp add: softE_def i e e')
  have r1: "?r1 = (cleaned r)\<lparr>totalExpenses := JNum (Fin e'), taxableAmount := JNum (softT r)\<rparr>"
    by (simp add: fst_applySoftConstraints E1)
  have E2: "softE ?r1 = Fin e'" by (simp add: softE_def r1 cleaned_def i e e')
  have C1: "softCalc r = num_sub (num_sub (Fin i) (Fin e')) (Fin d)"
    by (simp add: softCalc_def E1 i d)
  have C2: "softCalc ?r1 = softCalc r"
    unfolding C1 by (simp add: softCalc_def E2) (simp add: r1 cleaned_def i d)
  have T2: "softT ?r1 = softT r"
    using validateTaxableAmount_stable [OF sub_not_NaN, where t=t and i=i and a1=i and b1=e' and c1=d]
    by (simp add: softT_def C2) (simp add: r1 cleaned_def i t C1 softT_def)
  show ?thesis
    apply (subst fst_applySoftConstraints)
    apply (simp add: E2 T2)
    apply (simp add: r1 cleaned_def i d)
    done
qed




lemmas soft_eval = applySoftConstraints_def numericFields_def getField_def setField_def Let_def
  validateNumericValue_def isNaN_def isFinite_def validateExpensesRatio_def MAX_EXPENSE_RATIO_def
  validateTaxableAmount_def num_gt_def num_le_def num_eq_def num_sub_def Math_min_def Math_max_def
  dbl_def DBL_LIMIT_def

section \<open>Properties of the cross-validation\<close>




section \<open>Rules for evaluating the definitions\<close>

lemmas num_eval = num_gt_def num_le_def num_eq_def num_sub_def Math_min_def Math_max_def
  dbl_def DBL_LIMIT_def isNaN_def isFinite_def

lemmas str_eval = isWhiteSpace_def isDigit_def digitsValue_def trim_def scanExponent_def
  scaleBy_def scanDecimal_def parseFloat_def parseInt10_def removeCommas_def includes_char_def

lemmas rx_eval = lower_def isWordChar_def isLineTerminator_def ms_rest_def ms_caps_def
  Plus_def Opt_def Seqs_def Alts_def lit_def litI_def rx_exec_def rx_test_def group_def
  expand_def replace_all_def spaces1_def spaces0_def anything_def optS_def

lemmas json_eval = json_number_def json_word_def isJsonSpace_def isNumberChar_def isLetter_def
  punctuation_def escaped_def emit_def opens_def JSON_parse_def radixDigit_def

lemmas text_eval = extractTaxAmounts_def taxAmounts_def parseAmount_def amountTail_def
  rx_revenue_def rx_otherIncome_def rx_generalExpenses_def rx_costOfSales_def
  rx_directExpenses_def rx_capitalAllowances_def rx_depreciation_def rx_taxRelief_def
  rx_allowableDeductions_def rx_profitBeforeTax_def
  rx_year_def extractYearFromText_def rx_limitedLine_def rx_limited_def rx_companyPattern_def
  rx_technology_def rx_trading_def rx_construction_def inferType_def extractCompanyInfo_def
  extractFromRawText_def

lemmas shape_eval = isSimplifiedResponse_def simplifiedKeys_def parseSimplifiedResponse_def
  simplifiedRecord_def findFinancialItem_def rx_revenueAccount_def expenseKinds_def
  rx_expenseAccount_def rx_profitAccount_def rx_deductionAccount_def extractFinancialData_def
  parseFinancialStatementFormat_def numberOrZero_def processStandardFormat_def js_or_def

lemmas amount_eval = pat_revenue_def pat_expenses_def pat_profit_def pat_deductions_def
  lineNumberPatterns_def commaNumber_def groupedNumber_def fraction_def cedisGH_def
  cedisSign_def plainFigure_def bracketFigure_def revenuePatterns_def profitPatterns_def
  expensePatterns_def deductionPatterns_def figureOf_def specificSearch_def
  extractAmountFromText_def

lemmas clean_eval = backticks_def rx_fence_def rx_lineComment_def rx_blockComment_def closer_def
  rx_trailingComma_def quoteMark_def rx_propertyName_def bareWord_def rx_bareValue_def
  rx_nonPrintable_def rx_trailingComma2_def rx_unquotedKey_def rx_singleQuoted_def
  rx_embeddedObject_def quotedRef_def indexOf_def lastIndexOf_def cleanJSONString_def
  rescueJSONString_def fromFirstBrace_def toLastBrace_def checkStructure_def embeddedObject_def

section \<open>The cascade, the orchestration, the line items, the simplified shape\<close>

lemma safeJSONParse_staged: "safeJSONParse content = stagedParse content"
  by (simp add: safeJSONParse_def stagedParse_def cleanedAttempt_def split: option.splits)

lemma tryProviders_second:
  assumes "extractWithProvider this a d c = Inl e" "extractWithProvider this b d c = Inr r"
  shows "tryProviders this d c (a # b # rest) = (r, [a, b])"
  using assms by simp

lemma tryProviders_all_fail:
  assumes "\<forall>p \<in> set ps. \<exists>e. extractWithProvider this p d c = Inl e"
  shows "tryProviders this d c ps = (getDefaultTaxData (currentYear this), ps)"
  using assms by (induction ps) (auto split: sum.splits)

lemma getProvidersToTry_set: "set (getProvidersToTry this) = set (availableProviders this)"
  by (auto simp: getProvidersToTry_def)

lemma extractTaxData_fallback:
  assumes live: "availableProviders this \<noteq> []"
    and pref: "preferredProvider this \<in> set (availableProviders this)"
    and nxt: "filter (\<lambda>p. p \<noteq> preferredProvider this) (availableProviders this) = b # rest"
    and fails: "extractWithProvider this (preferredProvider this) d c = Inl e"
    and ok: "extractWithProvider this b d c = Inr r"
  shows "extractTaxData this d c = (r, [preferredProvider this, b])"
  using assms by (simp add: extractTaxData_def getProvidersToTry_def)

lemma extractTaxData_exhausted:
  assumes "\<forall>p \<in> set (availableProviders this). \<exists>e. extractWithProvider this p d c = Inl e"
  shows "fst (extractTaxData this d c) = getDefaultTaxData (currentYear this)"
  using assms tryProviders_all_fail [of "getProvidersToTry this" this d c]
  by (simp add: extractTaxData_def getProvidersToTry_set)

lemma firstNumeric_spec: "firstNumeric item names = firstPresentNumeric item names"
  by (induction names)
     (auto simp: firstPresentNumeric_def isNumeric_def isNaN_def split: jsval.splits)

lemma findItem_spec:
  assumes "\<forall>item \<in> set items. item \<noteq> JNull \<and> item \<noteq> JUndefined"
  shows "findItem p items = Some (List.find (accountMatches p) items)"
  using assms by (induction items) (auto simp: accountMatches_def)

lemma findFinancialItem_spec:
  assumes "\<forall>item \<in> set items. item \<noteq> JNull \<and> item \<noteq> JUndefined"
  shows "findFinancialItem items p names = Some (matchedAmount items p names)"
  using findItem_spec [OF assms, of p]
  by (simp add: findFinancialItem_def matchedAmount_def firstNumeric_spec split: option.splits)

lemma extractFinancialData_spec:
  assumes "\<forall>item \<in> set (lineItems data). item \<noteq> JNull \<and> item \<noteq> JUndefined"
  shows "extractFinancialData data =
     Some \<lparr> fd_revenue = matchedAmount (lineItems data) rx_revenueAccount
                            [''Amount'', ''Expenses'', ''Total_Income''],
            fd_expenses = matchedAmount (lineItems data) rx_expenseAccount
                            [''Expenses'', ''Amount'', ''Cost'', ''Total_Expenses''],
            fd_deductions = matchedAmount (lineItems data) rx_deductionAccount
                            [''Amount'', ''Expenses''],
            fd_profitBeforeTax = matchedAmount (lineItems data) rx_profitAccount [''Amount''] \<rparr>"
  using assms
  by (simp add: extractFinancialData_def Let_def lineItems_def [symmetric] findFinancialItem_spec)

lemma getProp_removeKey_same: "getProp (removeKey k d) k = JUndefined"
proof (cases d)
  case (JObj ps)
  have "map_of (filter (\<lambda>p. fst p \<noteq> k) ps) k = None"
    by (induction ps) auto
  with JObj show ?thesis by simp
qed simp_all

lemma getProp_removeKey_other: "k' \<noteq> k \<Longrightarrow> getProp (removeKey k d) k' = getProp d k'"
proof (cases d)
  case (JObj ps)
  assume "k' \<noteq> k"
  then have "map_of (filter (\<lambda>p. fst p \<noteq> k) ps) k' = map_of ps k'"
    by (induction ps) auto
  with JObj show ?thesis by simp
qed simp_all

lemma js_or_removeKey:
  assumes "\<not> truthy (getProp d k)"
  shows "js_or (getProp (removeKey k d) k') r = js_or (getProp d k') r"
proof (cases "k' = k")
  case True
  with assms show ?thesis by (simp add: js_or_def getProp_removeKey_same)
next
  case False
  then show ?thesis by (simp add: getProp_removeKey_other)
qed

lemma parseSimplifiedResponse_removeKey:
  assumes "\<not> truthy (getProp data k)"
  shows "parseSimplifiedResponse y (removeKey k data) doc = parseSimplifiedResponse y data doc"
  by (simp add: parseSimplifiedResponse_def js_or_removeKey [OF assms])

lemma js_or_falsy: "\<not> truthy a \<Longrightarrow> js_or a b = b"
  by (simp add: js_or_def)


lemma empty_unparsable: "fst (safeJSONParse []) = None"
  by (simp add: safeJSONParse_def json_eval clean_eval rx_eval str_eval Let_def)

lemma empty_object:
  "parseAIResponse 2026 ''{}'' (Some d) =
     \<lparr> taxpayerName = JStr ''Not provided'', taxYear = JNum (Fin 2026),
       totalIncome = JNum (Fin 0), totalExpenses = JNum (Fin 0),
       totalDeductions = JNum (Fin 0), taxableAmount = JNum (Fin 0),
       taxId = JStr ''Not provided'', businessType = JStr ''Not provided'' \<rparr>"
proof -
  have p: "JSON_parse ''{}'' = Some (JObj [])" by (simp add: json_eval)
  have s: "processStandardFormat 2026 (JObj []) t =
     \<lparr> taxpayerName = JStr ''Not provided'', taxYear = JNum (Fin 2026),
       totalIncome = JNum (Fin 0), totalExpenses = JNum (Fin 0),
       totalDeductions = JNum (Fin 0), taxableAmount = JNum (Fin 0),
       taxId = JStr ''Not provided'', businessType = JStr ''Not provided'' \<rparr>" for t
    by (simp add: processStandardFormat_def numberOrZero_def js_or_def soft_eval)
  show ?thesis
    by (simp add: parseAIResponse_def safeJSONParse_def p s isSimplifiedResponse_def)
qed

lemma simplified_totalIncome:
  "totalIncome (parseSimplifiedResponse y data doc) =
     JNum (validateNumericValue
       (js_or (getProp data ''Revenue'') (js_or (getProp data ''Income'')
          (js_or (getProp data ''Sales'') (js_or (getProp data ''Turnover'')
            (JNum (extractAmountFromText doc pat_revenue)))))))"
  by (simp add: parseSimplifiedResponse_def fst_applySoftConstraints cleaned_def
      simplifiedRecord_def)

lemma simplified_totalDeductions:
  "totalDeductions (parseSimplifiedResponse y data doc) =
     JNum (validateNumericValue
       (js_or (getProp data ''Deductions'') (js_or (getProp data ''CapitalAllowances'')
          (JNum (extractAmountFromText doc pat_deductions)))))"
  by (simp add: parseSimplifiedResponse_def fst_applySoftConstraints cleaned_def
      simplifiedRecord_def)

section \<open>The claims\<close>

text \<open>
  C1 fails on the code.  A response that carries a \<open>validationData\<close> property is
  returned by \<open>validateExtractedData\<close>, which copies the parsed object and fills in no
  default: for the response \<open>{"validationData":{}}\<close>, whatever the document and the
  year, the record has no \<open>taxpayerName\<close>, no \<open>taxYear\<close>, no \<open>taxId\<close> and no
  \<open>businessType\<close>.  Every other shape is given its defaults.
\<close>

theorem parseAIResponse_enhanced_undefined_fields:
  "parseAIResponse y enhancedInput doc =
     \<lparr> taxpayerName = JUndefined, taxYear = JUndefined,
       totalIncome = JNum (Fin 0), totalExpenses = JNum (Fin 0),
       totalDeductions = JNum (Fin 0), taxableAmount = JNum (Fin 0),
       taxId = JUndefined, businessType = JUndefined \<rparr>"
proof -
  have p: "JSON_parse enhancedInput = Some (JObj [(''validationData'', JObj [])])"
    by (simp add: enhancedInput_def json_eval)
  have v: "fst (validateExtractedData (JObj [(''validationData'', JObj [])])) =
     \<lparr> taxpayerName = JUndefined, taxYear = JUndefined,
       totalIncome = JNum (Fin 0), totalExpenses = JNum (Fin 0),
       totalDeductions = JNum (Fin 0), taxableAmount = JNum (Fin 0),
       taxId = JUndefined, businessType = JUndefined \<rparr>"
    by (simp add: validateExtractedData_def performCrossValidation_def recordOf_def soft_eval)
  show ?thesis
    by (simp add: parseAIResponse_def safeJSONParse_def p v)
qed

text \<open>
  C2 fails on the code.  The text-extraction fallback returns the figures of
  \<open>extractTaxAmounts\<close> as they are, without the reset that the other paths apply: for a
  response that is no JSON (here the empty response) and the document \<open>Revenue -\<close>, the
  pattern captures the lone minus sign, \<open>parseFloat\<close> gives \<open>NaN\<close>, and the record is
  returned with \<open>totalIncome\<close> and \<open>taxableAmount\<close> \<open>NaN\<close>.
\<close>

theorem parseAIResponse_fallback_not_finite:
  "parseAIResponse y [] (Some ''Revenue -'') =
     \<lparr> taxpayerName = JStr ''Not provided'', taxYear = JNum (Fin (of_int y)),
       totalIncome = JNum NaN, totalExpenses = JNum (Fin 0),
       totalDeductions = JNum (Fin 0), taxableAmount = JNum NaN,
       taxId = JStr ''Not provided'', businessType = JStr ''Not provided'' \<rparr>"
proof -
  have "extractFromRawText y ''Revenue -'' =
     \<lparr> taxpayerName = JStr ''Not provided'', taxYear = JNum (Fin (of_int y)),
       totalIncome = JNum NaN, totalExpenses = JNum (Fin 0),
       totalDeductions = JNum (Fin 0), taxableAmount = JNum NaN,
       taxId = JStr ''Not provided'', businessType = JStr ''Not provided'' \<rparr>"
    by (simp add: text_eval rx_eval str_eval num_eval Let_def)
  then show ?thesis
    by (simp add: parseAIResponse_def textOr_def empty_unparsable)
qed

text \<open>
  C3.  \<open>safeJSONParse\<close> is the three-stage cascade: it enters the stages in the order
  direct, cleaned, rescue; the cleaned stage exactly when the direct parse threw, the
  rescue stage exactly when the cleaned stage threw as well (in \<open>cleanJSONString\<close> or in
  the parse of its result); and its result is that of the first stage that succeeds.
\<close>

theorem safeJSONParse_cascade:
  "safeJSONParse content = stagedParse content
   \<and> hd (snd (safeJSONParse content)) = DirectParse
   \<and> (CleanedParse \<in> set (snd (safeJSONParse content)) \<longleftrightarrow> JSON_parse content = None)
   \<and> (RescueParse \<in> set (snd (safeJSONParse content))
        \<longleftrightarrow> JSON_parse content = None \<and> cleanedAttempt content = None)
   \<and> fst (safeJSONParse content) =
       (case JSON_parse content of
          Some v \<Rightarrow> Some v
        | None \<Rightarrow> (case cleanedAttempt content of
                     Some v \<Rightarrow> Some v
                   | None \<Rightarrow> JSON_parse (rescueJSONString content)))"
  by (simp add: safeJSONParse_def stagedParse_def cleanedAttempt_def split: option.splits)

text \<open>An object with an unquoted key and a trailing comma is parsed at the cleaned stage.\<close>

theorem safeJSONParse_cascade_witness:
  "stagedParse ''{a:1,}'' = (Some (JObj [(''a'', JNum (Fin 1))]), [DirectParse, CleanedParse])"
proof -
  have d: "JSON_parse ''{a:1,}'' = None"
    by (simp add: json_eval str_eval num_eval Let_def)
  have c: "cleanJSONString ''{a:1,}'' = Some ''{\"a\":1}''"
    by (simp add: clean_eval rx_eval str_eval Let_def)
  have p: "JSON_parse ''{\"a\":1}'' = Some (JObj [(''a'', JNum (Fin 1))])"
    by (simp add: json_eval str_eval num_eval Let_def)
  have "safeJSONParse ''{a:1,}'' = (Some (JObj [(''a'', JNum (Fin 1))]), [DirectParse, CleanedParse])"
    by (simp add: safeJSONParse_def d c p)
  then show ?thesis
    using safeJSONParse_cascade [of "''{a:1,}''"] by simp
qed

text \<open>
  C4.  With a non-empty list of live providers whose preferred provider is live: when
  the preferred provider's attempt throws and the attempt of the next candidate \<open>b\<close>
  succeeds, \<open>extractTaxData\<close> returns the result of \<open>b\<close> and has attempted the preferred
  provider, then \<open>b\<close>, and no other.  When the attempt of every live provider throws,
  the default record with its zero figures is returned.
\<close>

theorem extractTaxData_fallback_order:
  "(availableProviders this \<noteq> []
      \<and> preferredProvider this \<in> set (availableProviders this)
      \<and> filter (\<lambda>p. p \<noteq> preferredProvider this) (availableProviders this) = b # rest
      \<and> extractWithProvider this (preferredProvider this) d c = Inl e
      \<and> extractWithProvider this b d c = Inr r
    \<longrightarrow> extractTaxData this d c = (r, [preferredProvider this, b]))
   \<and> ((\<forall>p \<in> set (availableProviders this). \<exists>e'. extractWithProvider this p d c = Inl e')
    \<longrightarrow> fst (extractTaxData this d c) = getDefaultTaxData (currentYear this))"
  using extractTaxData_fallback [of this b rest d c e r] extractTaxData_exhausted [of this d c]
  by blast

text \<open>
  Three live providers with \<open>openai\<close> preferred: its call fails, \<open>ollama\<close> answers, and
  \<open>claude\<close> is never asked.  And two live providers that both fail.
\<close>

theorem extractTaxData_fallback_order_witness:
  "extractTaxData fallbackExtractor ''Revenue 100'' [] =
     (\<lparr> taxpayerName = JStr ''Not provided'', taxYear = JNum (Fin 2026),
        totalIncome = JNum (Fin 0), totalExpenses = JNum (Fin 0),
        totalDeductions = JNum (Fin 0), taxableAmount = JNum (Fin 0),
        taxId = JStr ''Not provided'', businessType = JStr ''Not provided'' \<rparr>,
      [''openai'', ''ollama''])
   \<and> fst (extractTaxData deadExtractor ''Revenue 100'' []) = getDefaultTaxData 2026"
proof -
  have a: "extractWithProvider fallbackExtractor ''openai'' ''Revenue 100'' []
             = Inl (Error ''request failed'')"
    by (simp add: fallbackExtractor_def extractWithProvider_def extractWithOpenAI_def
        buildExtractionPrompt_def)
  have b: "extractWithProvider fallbackExtractor ''ollama'' ''Revenue 100'' []
             = Inr (parseAIResponse 2026 ''{}'' (Some ''Revenue 100''))"
    by (simp add: fallbackExtractor_def extractWithProvider_def extractWithOllama_def
        buildExtractionPrompt_def)
  have f: "filter (\<lambda>p. p \<noteq> preferredProvider fallbackExtractor)
             (availableProviders fallbackExtractor) = ''ollama'' # [''claude'']"
    by (simp add: fallbackExtractor_def)
  have 1: "extractTaxData fallbackExtractor ''Revenue 100'' [] =
             (parseAIResponse 2026 ''{}'' (Some ''Revenue 100''), [''openai'', ''ollama''])"
    using extractTaxData_fallback_order
            [of fallbackExtractor "''ollama''" "[''claude'']" "''Revenue 100''" "[]"
                "Error ''request failed''" "parseAIResponse 2026 ''{}'' (Some ''Revenue 100'')"]
          a b f
    by (simp add: fallbackExtractor_def)
  have dead: "\<forall>p \<in> set (availableProviders deadExtractor).
                \<exists>e'. extractWithProvider deadExtractor p ''Revenue 100'' [] = Inl e'"
    by (simp add: deadExtractor_def extractWithProvider_def extractWithOllama_def
        extractWithClaude_def buildExtractionPrompt_def)
  have 2: "fst (extractTaxData deadExtractor ''Revenue 100'' []) = getDefaultTaxData 2026"
    using extractTaxData_fallback_order [of deadExtractor _ _ "''Revenue 100''" "[]"] dead
    by (simp add: deadExtractor_def)
  from 1 2 show ?thesis by (simp add: empty_object)
qed








text \<open>
  C7, as the code has it.  When no line item is \<open>null\<close>, each of the four figures is the
  amount of the first line item whose account label matches its pattern, read from the
  value fields of that figure's own list, in the list's order, the first that holds a
  number: \<open>Amount\<close>, \<open>Expenses\<close>, \<open>Total_Income\<close> for the revenue; \<open>Expenses\<close>,
  \<open>Amount\<close>, \<open>Cost\<close>, \<open>Total_Expenses\<close> for the expenses; \<open>Amount\<close>, \<open>Expenses\<close> for
  the deductions; \<open>Amount\<close> alone for the profit before tax.  A figure with no matching
  item, or whose item holds no number in these fields, is \<open>0\<close>.
\<close>

theorem extractFinancialData_field_order:
  assumes "\<forall>item \<in> set (lineItems data). item \<noteq> JNull \<and> item \<noteq> JUndefined"
  shows "extractFinancialData data =
     Some \<lparr> fd_revenue = matchedAmount (lineItems data) rx_revenueAccount
                            [''Amount'', ''Expenses'', ''Total_Income''],
            fd_expenses = matchedAmount (lineItems data) rx_expenseAccount
                            [''Expenses'', ''Amount'', ''Cost'', ''Total_Expenses''],
            fd_deductions = matchedAmount (lineItems data) rx_deductionAccount
                            [''Amount'', ''Expenses''],
            fd_profitBeforeTax = matchedAmount (lineItems data) rx_profitAccount [''Amount''] \<rparr>"
  using assms by (rule extractFinancialData_spec)

text \<open>
  The statement of the specification's example: a revenue line with an \<open>Amount\<close> and an
  expenses line with an \<open>Expenses\<close> field.
\<close>

theorem extractFinancialData_field_order_witness:
  "extractFinancialData statementExample =
     Some \<lparr> fd_revenue = Fin 13247, fd_expenses = Fin 14927,
            fd_deductions = Fin 0, fd_profitBeforeTax = Fin 0 \<rparr>"
proof -
  have items: "lineItems statementExample =
     [JObj [(''Account'', JStr ''Revenue''), (''Amount'', JNum (Fin 13247))],
      JObj [(''Account'', JStr ''General & admin expenses''), (''Expenses'', JNum (Fin 14927))]]"
    by (simp add: statementExample_def lineItems_def)
  have h: "\<forall>item \<in> set (lineItems statementExample). item \<noteq> JNull \<and> item \<noteq> JUndefined"
    by (simp add: items)
  show ?thesis
    using extractFinancialData_field_order [OF h]
    by (simp add: items matchedAmount_def accountMatches_def firstPresentNumeric_def
        isNumeric_def rx_revenueAccount_def expenseKinds_def rx_expenseAccount_def
        rx_profitAccount_def rx_deductionAccount_def rx_eval)
qed

text \<open>
  C7 as stated fails twice.  An expenses line with \<open>Amount\<close> 1 and \<open>Expenses\<close> 2 gives 2,
  where the order \<open>Amount\<close>, \<open>Expenses\<close>, \<open>Cost\<close> gives 1; and a revenue line that has
  only a \<open>Cost\<close> of 7 gives 0, where that order gives 7.
\<close>

theorem extractFinancialData_field_order_counterexample:
  "map_option fd_expenses (extractFinancialData orderExample) = Some (Fin 2)
   \<and> firstPresentNumeric expensesItem [''Amount'', ''Expenses'', ''Cost''] = Fin 1
   \<and> map_option fd_revenue (extractFinancialData orderExample) = Some (Fin 0)
   \<and> firstPresentNumeric salesItem [''Amount'', ''Expenses'', ''Cost''] = Fin 7"
  by (simp add: orderExample_def expensesItem_def salesItem_def shape_eval rx_eval
      firstPresentNumeric_def isNumeric_def isNaN_def Let_def)

text \<open>
  C8 fails on the code.  In the patterns of \<open>extractTaxAmounts\<close> the run \<open>[^\d]+\<close>
  before the captured group takes the opening parenthesis with it, so the group never
  holds both parentheses and \<open>parseAmount\<close> does not negate: for a response that is no
  JSON and the document \<open>Profit before tax (1,680)\<close> the fallback returns a
  \<open>taxableAmount\<close> of 1680, not -1680.
\<close>

theorem parseAIResponse_fallback_parentheses:
  "parseAIResponse y [] (Some ''Profit before tax (1,680)'') =
     \<lparr> taxpayerName = JStr ''Not provided'', taxYear = JNum (Fin (of_int y)),
       totalIncome = JNum (Fin 0), totalExpenses = JNum (Fin 0),
       totalDeductions = JNum (Fin 0), taxableAmount = JNum (Fin 1680),
       taxId = JStr ''Not provided'', businessType = JStr ''Not provided'' \<rparr>"
proof -
  have "extractFromRawText y ''Profit before tax (1,680)'' =
     \<lparr> taxpayerName = JStr ''Not provided'', taxYear = JNum (Fin (of_int y)),
       totalIncome = JNum (Fin 0), totalExpenses = JNum (Fin 0),
       totalDeductions = JNum (Fin 0), taxableAmount = JNum (Fin 1680),
       taxId = JStr ''Not provided'', businessType = JStr ''Not provided'' \<rparr>"
    by (simp add: text_eval rx_eval str_eval num_eval Let_def)
  then show ?thesis
    by (simp add: parseAIResponse_def textOr_def empty_unparsable)
qed

text \<open>
  C9.  Applying \<open>applySoftConstraints\<close> to its own result returns that result: for every
  record, whatever values its fields hold, a second pass changes no field.
\<close>

theorem applySoftConstraints_idempotent:
  "fst (applySoftConstraints (fst (applySoftConstraints r))) = fst (applySoftConstraints r)"
  by (rule applySoftConstraints_idem)

theorem applySoftConstraints_idempotent_witness:
  "fst (applySoftConstraints (fst (applySoftConstraints capExample)))
     = \<lparr> taxpayerName = JUndefined, taxYear = JUndefined,
         totalIncome = JNum (Fin 1000), totalExpenses = JNum (Fin 5000),
         totalDeductions = JNum (Fin 0), taxableAmount = JNum (Fin (- 4000)),
         taxId = JUndefined, businessType = JUndefined \<rparr>"
proof -
  have "fst (applySoftConstraints capExample)
     = \<lparr> taxpayerName = JUndefined, taxYear = JUndefined,
         totalIncome = JNum (Fin 1000), totalExpenses = JNum (Fin 5000),
         totalDeductions = JNum (Fin 0), taxableAmount = JNum (Fin (- 4000)),
         taxId = JUndefined, businessType = JUndefined \<rparr>"
    by (simp add: capExample_def soft_eval)
  then show ?thesis
    using applySoftConstraints_idempotent [of capExample] by simp
qed

text \<open>
  C10.  In \<open>parseSimplifiedResponse\<close> a key whose value is falsy counts as absent: the
  record is the one the object without that key gives.  When every revenue key is falsy
  the income is the figure scanned from the document (reset to \<open>0\<close> when it is not
  finite), and likewise the deductions when both deduction keys are falsy.
\<close>

theorem parseSimplifiedResponse_falsy_absent:
  "(\<not> truthy (getProp data k)
      \<longrightarrow> parseSimplifiedResponse y (removeKey k data) doc = parseSimplifiedResponse y data doc)
   \<and> (\<not> truthy (getProp data ''Revenue'') \<and> \<not> truthy (getProp data ''Income'')
        \<and> \<not> truthy (getProp data ''Sales'') \<and> \<not> truthy (getProp data ''Turnover'')
      \<longrightarrow> totalIncome (parseSimplifiedResponse y data doc)
            = JNum (validateNumericValue (JNum (extractAmountFromText doc pat_revenue))))
   \<and> (\<not> truthy (getProp data ''Deductions'') \<and> \<not> truthy (getProp data ''CapitalAllowances'')
      \<longrightarrow> totalDeductions (parseSimplifiedResponse y data doc)
            = JNum (validateNumericValue (JNum (extractAmountFromText doc pat_deductions))))"
  using parseSimplifiedResponse_removeKey [of data k y doc]
  by (simp add: simplified_totalIncome simplified_totalDeductions js_or_falsy)

text \<open>
  The response \<open>{"Revenue": 0, "Expenses": 100}\<close> against the document
  \<open>Revenue 5,000\<close>: the income of the record is the 5000 of the document.
\<close>

theorem parseSimplifiedResponse_falsy_absent_witness:
  "\<not> truthy (getProp simplifiedExample ''Revenue'')
   \<and> parseSimplifiedResponse 2026 (removeKey ''Revenue'' simplifiedExample) ''Revenue 5,000''
       = parseSimplifiedResponse 2026 simplifiedExample ''Revenue 5,000''
   \<and> totalIncome (parseSimplifiedResponse 2026 simplifiedExample ''Revenue 5,000'')
       = JNum (Fin 5000)"
proof -
  have a: "extractAmountFromText ''Revenue 5,000'' pat_revenue = Fin 5000"
    by (simp add: amount_eval rx_eval str_eval num_eval Let_def)
  show ?thesis
    using parseSimplifiedResponse_falsy_absent [of simplifiedExample "''Revenue''" 2026 "''Revenue 5,000''"]
    by (simp add: simplifiedExample_def a)
qed

end
